theory Spec2Isabelle
  imports Complex_Main
begin

section \<open>Exceptions and exit codes\<close>

text \<open>
  The Python exceptions that the modelled code raises, catches or lets through.
  \<open>Exception\<close> stands for any instance of Python's class \<^verbatim>\<open>Exception\<close> that is none
  of the more specific ones listed; \<open>KeyboardInterrupt\<close> and \<open>SystemExit\<close> derive from
  \<^verbatim>\<open>BaseException\<close> only, so an \<^verbatim>\<open>except Exception\<close> clause does not catch them.
\<close>

datatype exn =
    StopIteration string
  | OverflowError
  | KeyError string
  | CommandError string
  | Exception string
  | KeyboardInterrupt
  | SystemExit int

text \<open>\<^verbatim>\<open>isinstance(e, Exception)\<close>: what an \<^verbatim>\<open>except Exception\<close> clause catches.\<close>

fun is_Exception :: "exn \<Rightarrow> bool" where
  "is_Exception KeyboardInterrupt = False"
| "is_Exception (SystemExit c) = False"
| "is_Exception e = True"

text \<open>Class \<^verbatim>\<open>ErrorCodes\<close> of \<^verbatim>\<open>runner.py\<close>.\<close>

definition OK :: int where "OK = 0"
definition ERROR :: int where "ERROR = 1"
definition DAEMON_RUNNING :: int where "DAEMON_RUNNING = 4"
definition DAEMON_NOT_RUNNING :: int where "DAEMON_NOT_RUNNING = 5"
definition EXTENSION_LOAD :: int where "EXTENSION_LOAD = 7"
definition RETRY_MAX_ATTEMPTS :: int where "RETRY_MAX_ATTEMPTS = 8"
definition CFG_FILE :: int where "CFG_FILE = 17"

section \<open>Floating-point arithmetic\<close>

text \<open>
  \<^verbatim>\<open>Backoff.next\<close> computes with Python's floats. The model does not fix what a float is
  or how an operation rounds: the type \<open>'f\<close> of float values and the operations that the
  code uses are parameters.
  \<^item> \<open>float_lit\<close>: the float that a numeric literal of the source denotes;
  \<^item> \<open>float_pow\<close>: \<^verbatim>\<open>x ** n\<close> for a float \<open>x\<close> and an integer \<open>n\<close> that is not negative,
    which raises \<^verbatim>\<open>OverflowError\<close> when the result is out of range;
  \<^item> \<open>float_mul\<close> and \<open>float_add\<close>: \<^verbatim>\<open>x * y\<close> and \<^verbatim>\<open>x + y\<close>, which never raise;
  \<^item> \<open>int_truediv\<close>: \<^verbatim>\<open>k / d\<close> for two integers, a float.
\<close>

record 'f float_arith =
  float_lit :: "real \<Rightarrow> 'f"
  float_pow :: "'f \<Rightarrow> nat \<Rightarrow> exn + 'f"
  float_mul :: "'f \<Rightarrow> 'f \<Rightarrow> 'f"
  float_add :: "'f \<Rightarrow> 'f \<Rightarrow> 'f"
  int_truediv :: "int \<Rightarrow> int \<Rightarrow> 'f"

section \<open>Backoff\<close>

text \<open>
  Class \<^verbatim>\<open>Backoff\<close> of \<^verbatim>\<open>runner.py\<close>. The fields are \<^verbatim>\<open>self.t0\<close>, \<^verbatim>\<open>self.max\<close>,
  \<^verbatim>\<open>self.base\<close> and \<^verbatim>\<open>self.n\<close>; the last is called \<open>n_count\<close> here. The counter is only
  ever set to 0 and incremented, so it is a natural number; \<^verbatim>\<open>max_attempts\<close> is whatever
  integer the caller passes; the initial time and the base are floats, as the defaults
  of the constructor and the arguments of its one caller are.
\<close>

record 'f backoff =
  t0 :: 'f
  max_attempts :: int
  base :: 'f
  n_count :: nat

text \<open>\<^verbatim>\<open>Backoff.reset\<close>.\<close>

definition backoff_reset :: "'f backoff \<Rightarrow> 'f backoff" where
  "backoff_reset b = b\<lparr>n_count := 0\<rparr>"

text \<open>\<^verbatim>\<open>Backoff.__init__\<close>: stores the parameters, sets the counter to 0 and resets.\<close>

definition Backoff :: "'f \<Rightarrow> 'f \<Rightarrow> int \<Rightarrow> 'f backoff" where
  "Backoff initial_time b m =
     backoff_reset \<lparr>t0 = initial_time, max_attempts = m, base = b, n_count = 0\<rparr>"

text \<open>
  What \<^verbatim>\<open>random.randint(0, 1000)\<close> can return: \<^verbatim>\<open>randint(a, b)\<close> returns an integer \<open>k\<close>
  with \<open>a \<le> k \<le> b\<close>, both ends included. The jitter is \<^verbatim>\<open>k / 1000\<close>, a division of two
  integers, which in Python gives the float nearest to the exact quotient;
  \<open>jitter_exact\<close> is that exact quotient.
\<close>

definition randint_range :: "int set" where
  "randint_range = {0..1000}"

definition jitter_exact :: "int \<Rightarrow> real" where
  "jitter_exact k = real_of_int k / 1000"

text \<open>
  \<^verbatim>\<open>Backoff.next\<close>, given the integer drawn by \<^verbatim>\<open>randint\<close>: the outcome of the call (the
  delay, or the exception raised) and the object after the call. The power is the first
  operation to be evaluated; when it raises, the statement that increments the counter is
  not reached.
\<close>

definition backoff_next :: "'f float_arith \<Rightarrow> 'f backoff \<Rightarrow> int \<Rightarrow> (exn + 'f) \<times> 'f backoff" where
  "backoff_next A b k =
     (if int (n_count b) < max_attempts b then
        (case float_pow A (base b) (n_count b) of
           Inl e \<Rightarrow> (Inl e, b)
         | Inr p \<Rightarrow>
             (let tn = float_add A (float_mul A (t0 b) p) (int_truediv A k 1000)
              in (Inr tn, b\<lparr>n_count := n_count b + 1\<rparr>)))
      else (Inl (StopIteration ''Maximum attempts exceeded''), b))"

text \<open>
  Consecutive calls of \<^verbatim>\<open>next\<close> on one object, one per drawn integer, each call's
  outcome recorded.
\<close>

fun next_calls :: "'f float_arith \<Rightarrow> 'f backoff \<Rightarrow> int list \<Rightarrow> (exn + 'f) list" where
  "next_calls A b [] = []"
| "next_calls A b (k # ks) =
     (case backoff_next A b k of (r, b') \<Rightarrow> r # next_calls A b' ks)"

text \<open>
  The local function \<^verbatim>\<open>reset_backoff\<close> of \<^verbatim>\<open>run_reboot_loop\<close>: the action that the
  supervisor schedules, tagged with the counter's value at scheduling time.
\<close>

definition reset_backoff :: "'f backoff \<Rightarrow> nat \<Rightarrow> 'f backoff" where
  "reset_backoff b sequence = (if sequence = n_count b then backoff_reset b else b)"

section \<open>Connection session\<close>

text \<open>
  Function \<^verbatim>\<open>run\<close> of \<^verbatim>\<open>runner.py\<close>. What the function does to its surroundings is
  recorded as a trace of actions, in program order: the calls of the logger, of the client
  and of the event loop, and the write of the runtime state. The event loop is
  represented by the tasks that are on it and not yet done.
\<close>

datatype 'f action =
    LogDebug string
  | LogInfo string
  | LogRestartIn 'f
  | LogError string
  | LogException string
  | Login
  | Connect
  | Close
  | GatherCancel "nat list"
  | RunUntilComplete "nat list"
  | StateWrite
  | CallLater 'f nat
  | TimerCancel
  | Sleep 'f
  | LoopClose

record 'f world =
  tasks :: "nat list"
  trace :: "'f action list"

definition emit :: "'f action list \<Rightarrow> 'f world \<Rightarrow> 'f world" where
  "emit as w = w\<lparr>trace := trace w @ as\<rparr>"

text \<open>
  What the surroundings decide during one call of \<^verbatim>\<open>run\<close>:
  \<^item> \<open>loaded\<close>: the configured extensions that were loaded before the start-up ended;
  \<^item> \<open>startup\<close>: how lines 33 to 66 end. \<open>StartupRaised e\<close> is an exception escaping from
    the configuration, the construction of the client or the loading of an extension;
    \<open>ExtensionFailed x\<close> is \<^verbatim>\<open>load_extension\<close> raising an \<^verbatim>\<open>Exception\<close> for the
    configured extension \<open>x\<close>;
  \<^item> \<open>login\<close> and \<open>connect\<close>: the exception that
    \<^verbatim>\<open>loop.run_until_complete(client.login(...))\<close>, respectively
    \<^verbatim>\<open>loop.run_until_complete(client.connect())\<close>, raises, or \<open>None\<close> when it returns;
  \<^item> \<open>spawned\<close>: the tasks created on the event loop while the session was connected that
    are still not done when the \<^verbatim>\<open>try\<close> suite is left;
  \<^item> \<open>close_error\<close>: the exception that \<^verbatim>\<open>loop.run_until_complete(client.close())\<close>
    raises in a handler, or \<open>None\<close> when it returns;
  \<^item> \<open>await_error\<close>: the message of an exception of class \<^verbatim>\<open>Exception\<close> raised inside the
    \<^verbatim>\<open>try\<close> of the \<^verbatim>\<open>finally\<close> clause, by \<^verbatim>\<open>run_until_complete(gathered)\<close> or by
    \<^verbatim>\<open>gathered.exception()\<close>, or \<open>None\<close> when the three calls return;
  \<^item> \<open>unfinished\<close>: the tasks that are still not done when such an exception is raised.
  The logger and \<^verbatim>\<open>KazCog.state.write()\<close> are taken to return, and an interrupt that
  arrives outside the \<^verbatim>\<open>try\<close> suite of line 69 is not modelled.
\<close>

datatype startup_outcome = StartupDone | StartupRaised exn | ExtensionFailed string

record session_env =
  loaded :: "string list"
  startup :: startup_outcome
  login :: "exn option"
  connect :: "exn option"
  spawned :: "nat list"
  close_error :: "exn option"
  await_error :: "string option"
  unfinished :: "nat list"

text \<open>
  Lines 70 and 71, the suite of the \<^verbatim>\<open>try\<close> statement: log in, then connect and serve
  until the connection ends. The result is the exception that leaves the suite, if any.
\<close>

definition try_suite :: "session_env \<Rightarrow> 'f world \<Rightarrow> exn option \<times> 'f world" where
  "try_suite env w =
     (case login env of
        Some e \<Rightarrow> (Some e, emit [Login] w)
      | None \<Rightarrow>
          (let w1 = emit [Login, Connect] w;
               w2 = w1\<lparr>tasks := tasks w1 @ spawned env\<rparr>
           in (connect env, w2)))"

text \<open>
  The \<^verbatim>\<open>except\<close> clauses of lines 72 to 86, tried in the order of the source. The result
  is the exception with which the statement is left after the handler: \<open>SystemExit OK\<close>
  from \<^verbatim>\<open>sys.exit(ErrorCodes.OK)\<close>, nothing after the \<^verbatim>\<open>return\<close> of the second
  handler, the exception of \<^verbatim>\<open>client.close()\<close> when that call raises inside a handler,
  and the exception itself when no clause matches.
\<close>

definition handlers :: "session_env \<Rightarrow> exn \<Rightarrow> 'f world \<Rightarrow> exn option \<times> 'f world" where
  "handlers env e w =
     (if e = KeyboardInterrupt then
        (let w1 = emit [LogInfo ''Interrupted by user'',
                        LogDebug ''Waiting for client to close...'', Close] w
         in case close_error env of
              Some e' \<Rightarrow> (Some e', w1)
            | None \<Rightarrow> (Some (SystemExit OK), emit [LogInfo ''Client closed.''] w1))
      else if is_Exception e then
        (let w1 = emit [LogException ''Uncaught exception during bot execution'',
                        LogDebug ''Waiting for client to close...'', Close] w
         in case close_error env of
              Some e' \<Rightarrow> (Some e', w1)
            | None \<Rightarrow> (None, emit [LogInfo ''Client closed.''] w1))
      else (Some e, w))"

text \<open>
  The \<^verbatim>\<open>finally\<close> clause, lines 87 to 106. \<^verbatim>\<open>asyncio.Task.all_tasks\<close> gives the tasks of
  the loop; \<^verbatim>\<open>gather(*pending, return_exceptions=True)\<close> followed by \<^verbatim>\<open>cancel()\<close> requests
  the cancellation of each of them. \<^verbatim>\<open>run_until_complete(gathered)\<close> returns when each of
  them is done; with \<^verbatim>\<open>return_exceptions=True\<close> the \<^verbatim>\<open>CancelledError\<close> of a task is an
  element of the gathered result and is raised nowhere. When instead one of the calls
  raises an \<^verbatim>\<open>Exception\<close>, the handler of line 103 passes over it, and the tasks that are
  not done then stay on the loop. In both cases the runtime state is written next.
\<close>

definition teardown :: "session_env \<Rightarrow> 'f world \<Rightarrow> 'f world" where
  "teardown env w =
     (let w1 = emit [LogDebug ''Cancelling pending tasks...''] w;
          pending = tasks w1;
          w2 = emit [GatherCancel pending, RunUntilComplete pending] w1;
          w3 = (case await_error env of
                  None \<Rightarrow> w2\<lparr>tasks := filter (\<lambda>t. t \<notin> set pending) (tasks w2)\<rparr>
                | Some msg \<Rightarrow> w2\<lparr>tasks := filter (\<lambda>t. t \<in> set (unfinished env)) (tasks w2)\<rparr>)
      in emit [StateWrite] w3)"

text \<open>The whole \<^verbatim>\<open>try\<close> statement, lines 69 to 106.\<close>

definition session :: "session_env \<Rightarrow> 'f world \<Rightarrow> exn option \<times> 'f world" where
  "session env w =
     (let (r, w1) = try_suite env w;
          (r', w2) = (case r of None \<Rightarrow> (None, w1) | Some e \<Rightarrow> handlers env e w1)
      in (r', teardown env w2))"

text \<open>
  \<^verbatim>\<open>run\<close>: the start-up of lines 33 to 66, then the \<^verbatim>\<open>try\<close> statement. The result is
  \<open>None\<close> when \<^verbatim>\<open>run\<close> returns and the exception that leaves it otherwise. A start-up
  that fails leaves \<^verbatim>\<open>run\<close> before the \<^verbatim>\<open>try\<close> statement is entered.
\<close>

definition run :: "session_env \<Rightarrow> 'f world \<Rightarrow> exn option \<times> 'f world" where
  "run env w =
     (let w0 = emit (map (\<lambda>x. LogDebug (''Loading extension: '' @ x)) (loaded env)) w
      in case startup env of
           StartupRaised e \<Rightarrow> (Some e, w0)
         | ExtensionFailed x \<Rightarrow>
             (Some (SystemExit EXTENSION_LOAD),
              emit [LogDebug (''Loading extension: '' @ x),
                    LogException (''Failed to load extension '' @ x)] w0)
         | StartupDone \<Rightarrow> session env w0)"

section \<open>Supervisor loop\<close>

text \<open>
  Function \<^verbatim>\<open>run_reboot_loop\<close> of \<^verbatim>\<open>runner.py\<close>. The loop has no exit of its own, so the
  model runs it against a script: one entry per iteration, holding what the surroundings
  decide in that iteration. When the script is used up the loop is still running, at the
  head of the \<^verbatim>\<open>while\<close> statement.
  \<^item> \<open>senv\<close>: the surroundings of the call of \<^verbatim>\<open>run\<close>;
  \<^item> \<open>timer_fired\<close>: the event loop ran for \<^verbatim>\<open>wait_time\<close> seconds during \<^verbatim>\<open>run\<close>, so the
    action scheduled by \<^verbatim>\<open>call_later\<close> was called before \<^verbatim>\<open>run\<close> returned;
  \<^item> \<open>drawn\<close>: the integer that \<^verbatim>\<open>randint\<close> returns inside \<^verbatim>\<open>bo_timer.next()\<close>;
  \<^item> \<open>sleep_interrupted\<close>: \<^verbatim>\<open>time.sleep\<close> is ended by a \<^verbatim>\<open>KeyboardInterrupt\<close>.
  The action scheduled in an iteration is tagged with the counter as it is then; \<^verbatim>\<open>run\<close>
  does not touch the backoff, so the action meets the same backoff whenever it fires
  during \<^verbatim>\<open>run\<close>. \<open>LogRestartIn tn\<close> is the log line that announces the restart in \<open>tn\<close>
  seconds.
\<close>

record iteration =
  senv :: session_env
  timer_fired :: bool
  drawn :: int
  sleep_interrupted :: bool

datatype 'f loop_end = Running "'f backoff" 'f | Raised exn

fun reboot_loop ::
  "'f float_arith \<Rightarrow> 'f backoff \<Rightarrow> 'f \<Rightarrow> iteration list \<Rightarrow> 'f world \<Rightarrow> 'f loop_end \<times> 'f world" where
  "reboot_loop A bo_timer wait_time [] w = (Running bo_timer wait_time, w)"
| "reboot_loop A bo_timer wait_time (it # its) w =
     (let sequence = n_count bo_timer;
          w1 = emit [CallLater wait_time sequence] w;
          (r, w2) = run (senv it) w1;
          bo1 = (if timer_fired it then reset_backoff bo_timer sequence else bo_timer)
      in case r of
           Some e \<Rightarrow> (Raised e, w2)
         | None \<Rightarrow>
             (let w3 = emit [LogError ''Bot halted unexpectedly.'', TimerCancel] w2
              in case backoff_next A bo1 (drawn it) of
                   (Inl e, bo2) \<Rightarrow> (Raised e, w3)
                 | (Inr tn, bo2) \<Rightarrow>
                     (let w4 = emit [LogRestartIn tn, Sleep tn] w3
                      in if sleep_interrupted it then (Raised KeyboardInterrupt, w4)
                         else reboot_loop A bo2 tn its (emit [LogInfo ''Restarting bot...''] w4))))"

text \<open>
  How \<^verbatim>\<open>run_reboot_loop\<close> ends: still running (the script is used up), returning to
  its caller, or left by an exception; \<open>Raises (SystemExit c)\<close> is the process exiting
  with status \<open>c\<close>.
\<close>

datatype 'f ending = StillRunning "'f backoff" 'f | Returns | Raises exn

text \<open>
  The \<^verbatim>\<open>try\<close> statement of \<^verbatim>\<open>run_reboot_loop\<close> for a given backoff object: the loop,
  starting with a wait time of 0, the \<^verbatim>\<open>except\<close> clauses in the order of the source, and
  the \<^verbatim>\<open>finally\<close> clause.
\<close>

definition supervise ::
  "'f float_arith \<Rightarrow> 'f backoff \<Rightarrow> iteration list \<Rightarrow> 'f world \<Rightarrow> 'f ending \<times> 'f world" where
  "supervise A bo_timer script w =
     (case reboot_loop A bo_timer (float_lit A 0) script w of
        (Running bo wt, w1) \<Rightarrow> (StillRunning bo wt, w1)
      | (Raised e, w1) \<Rightarrow>
          (case e of
             StopIteration s \<Rightarrow>
               (Raises (SystemExit RETRY_MAX_ATTEMPTS),
                emit [LogError ''Too many failed attempts. Exiting.'', LogInfo ''Exiting.'', LoopClose] w1)
           | KeyboardInterrupt \<Rightarrow>
               (Returns, emit [LogInfo ''Interrupted by user. Exiting.'', LogInfo ''Exiting.'', LoopClose] w1)
           | SystemExit c \<Rightarrow> (Raises (SystemExit c), emit [LogInfo ''Exiting.'', LoopClose] w1)
           | _ \<Rightarrow>
               (Raises e, emit [LogException ''Exception in reboot loop.'', LogInfo ''Exiting.'', LoopClose] w1)))"

text \<open>
  \<^verbatim>\<open>run_reboot_loop\<close>: the welcome line (its version number left out), then the \<^verbatim>\<open>try\<close>
  statement with the backoff object that line 123 constructs.
\<close>

definition run_reboot_loop ::
  "'f float_arith \<Rightarrow> iteration list \<Rightarrow> 'f world \<Rightarrow> 'f ending \<times> 'f world" where
  "run_reboot_loop A script w =
     supervise A (Backoff (float_lit A 3.0) (float_lit A 1.58) 12) script
       (emit [LogInfo ''Welcome to KazTron, booting up...''] w)"

section \<open>Wizard manager\<close>

text \<open>
  Class \<^verbatim>\<open>WizardManager\<close> of \<^verbatim>\<open>cog/projects/wizard.py\<close>. The wizard class itself
  (\<^verbatim>\<open>ProjectWizard\<close>, made by \<^verbatim>\<open>kaztron.utils.wizard.make_wizard\<close>) is not part of the
  sources at hand, so the manager is modelled for any wizard type \<open>'w\<close>, the operations of
  the class that the manager calls being parameters:
  \<^item> \<open>wz_create\<close>: the constructor \<^verbatim>\<open>ProjectWizard(member.id, timestamp)\<close>;
  \<^item> \<open>wz_all_opts\<close>: the assignment \<^verbatim>\<open>w.opts = ProjectWizard.question_keys\<close>;
  \<^item> \<open>wz_question\<close>: the property \<^verbatim>\<open>question\<close>, which may raise;
  \<^item> \<open>wz_is_done\<close>: the property \<^verbatim>\<open>is_done\<close>;
  \<^item> \<open>wz_answer\<close>: the method \<^verbatim>\<open>answer\<close>, which changes the wizard in place and may
    raise: the exception raised, if any, and the wizard as the call leaves it.
\<close>

record 'w wizard_class =
  wz_create :: "string \<Rightarrow> int \<Rightarrow> 'w"
  wz_all_opts :: "'w \<Rightarrow> 'w"
  wz_question :: "'w \<Rightarrow> exn + string"
  wz_is_done :: "'w \<Rightarrow> bool"
  wz_answer :: "'w \<Rightarrow> string \<Rightarrow> exn option \<times> 'w"

text \<open>
  A \<^verbatim>\<open>discord.Member\<close>: its \<^verbatim>\<open>id\<close> (a string in this version of the library, see
  \<^verbatim>\<open>UserWizardMap\<close>) and the text that \<^verbatim>\<open>format\<close> gives for it. A \<^verbatim>\<open>discord.Message\<close>:
  its author and content. A project: its title, the one field the manager reads.
\<close>

record member =
  member_id :: string
  member_str :: string

record message =
  author :: member
  content :: string

record project =
  title :: string

text \<open>
  The manager's state: the two dictionaries \<^verbatim>\<open>self.wizards['new']\<close> and
  \<^verbatim>\<open>self.wizards['edit']\<close>, from user id to wizard. A dictionary value can be Python's
  \<^verbatim>\<open>None\<close> (\<^verbatim>\<open>get_wizard_for\<close> tests for it), so a value is a \<open>'w option\<close> and a
  dictionary is a map to \<open>'w option\<close>: \<open>m u = None\<close> is a missing key, \<open>m u = Some None\<close>
  is the key \<open>u\<close> with the value \<^verbatim>\<open>None\<close>. \<open>sent\<close> lists what \<^verbatim>\<open>self.bot\<close> has sent, as
  pairs of recipient id and text, oldest first.
\<close>

type_synonym 'w user_wizard_map = "string \<rightharpoonup> 'w option"

record 'w wizard_manager =
  new_map :: "'w user_wizard_map"
  edit_map :: "'w user_wizard_map"
  sent :: "(string \<times> string) list"

text \<open>\<^verbatim>\<open>WizardManager.__init__\<close>.\<close>

definition init_manager :: "'w wizard_manager" where
  "init_manager = \<lparr>new_map = Map.empty, edit_map = Map.empty, sent = []\<rparr>"

text \<open>
  \<^verbatim>\<open>self.wizards.items()\<close>: the dictionary literal of \<^verbatim>\<open>__init__\<close> lists \<^verbatim>\<open>'new'\<close> before
  \<^verbatim>\<open>'edit'\<close>, which is the order of iteration.
\<close>

definition wizards_items :: "'w wizard_manager \<Rightarrow> (string \<times> 'w user_wizard_map) list" where
  "wizards_items st = [(''new'', new_map st), (''edit'', edit_map st)]"

text \<open>
  \<^verbatim>\<open>self.wizards[name]\<close>, and the assignment and deletion of an entry of it. The outer
  dictionary has the two keys \<^verbatim>\<open>'new'\<close> and \<^verbatim>\<open>'edit'\<close> and no code changes them, so
  \<open>name\<close> is one of the two wherever these are used.
\<close>

definition wizards_at :: "'w wizard_manager \<Rightarrow> string \<Rightarrow> 'w user_wizard_map" where
  "wizards_at st name = (if name = ''new'' then new_map st else edit_map st)"

definition set_entry :: "'w wizard_manager \<Rightarrow> string \<Rightarrow> string \<Rightarrow> 'w option \<Rightarrow> 'w wizard_manager" where
  "set_entry st name uid v =
     (if name = ''new'' then st\<lparr>new_map := (new_map st)(uid \<mapsto> v)\<rparr>
      else st\<lparr>edit_map := (edit_map st)(uid \<mapsto> v)\<rparr>)"

definition del_entry :: "'w wizard_manager \<Rightarrow> string \<Rightarrow> string \<Rightarrow> 'w wizard_manager" where
  "del_entry st name uid =
     (if name = ''new'' then st\<lparr>new_map := (new_map st)(uid := None)\<rparr>
      else st\<lparr>edit_map := (edit_map st)(uid := None)\<rparr>)"

text \<open>
  \<^verbatim>\<open>self.bot.send_message(member, text)\<close>. The bot is a collaborator: \<open>the_bot uid text\<close> is
  the exception with which sending \<open>text\<close> to \<open>uid\<close> fails, or \<open>None\<close> when the message
  goes out.
\<close>

type_synonym bot = "string \<Rightarrow> string \<Rightarrow> exn option"

definition send_message ::
  "bot \<Rightarrow> member \<Rightarrow> string \<Rightarrow> 'w wizard_manager \<Rightarrow> (exn + unit) \<times> 'w wizard_manager" where
  "send_message the_bot m text st =
     (case the_bot (member_id m) text of
        Some e \<Rightarrow> (Inl e, st)
      | None \<Rightarrow> (Inr (), st\<lparr>sent := sent st @ [(member_id m, text)]\<rparr>))"

text \<open>The message texts of the module.\<close>

definition start_msg :: string where
  "start_msg =
     ''**New Project Wizard**'' @ [CHR 0x0A, CHR 0x0A] @
     ''Let the server know what projects you'' @ [CHR 0x27] @ ''re working on! Other members on the '' @
     ''server can look up any of your registered projects. To cancel this wizard, '' @
     ''type `.project cancel`.''"

definition start_edit_msg_fmt :: "project \<Rightarrow> string" where
  "start_edit_msg_fmt proj =
     ''**Edit Project Wizard**'' @ [CHR 0x0A, CHR 0x0A] @
     ''You are editing your current project, '' @ title proj @ ''. If you don'' @ [CHR 0x27] @ ''t want to '' @
     ''change a previous value, type `None` for that question. To cancel this '' @
     ''wizard, type `.project cancel`.''"

definition end_msg :: string where
  "end_msg =
     ''Your project is set up! Other members can now look it up and find out what'' @
     ''you'' @ [CHR 0x27] @ ''re up to!'' @ [CHR 0x0A, CHR 0x0A] @
     ''If you'' @ [CHR 0x27] @ ''d like to re-run this wizard to make changes to your '' @
     ''project, use `.project wizard`. You can also edit fields or add additional '' @
     ''info using the `.project set` series of commands. Do `.help projects set` '' @
     ''for more information.''"

definition cancel_notice :: "string \<Rightarrow> string" where
  "cancel_notice name =
     (if name = ''new'' then ''New project has been cancelled.''
      else if name = ''edit'' then ''Editing your project has been cancelled.''
      else ''Wizard has been cancelled (generic msg).'')"

text \<open>\<^verbatim>\<open>WizardManager.has_open_wizard\<close>: the id is a key of one of the dictionaries.\<close>

definition has_open_wizard :: "'w wizard_manager \<Rightarrow> member \<Rightarrow> bool" where
  "has_open_wizard st m = list_ex (\<lambda>(name, w). w (member_id m) \<noteq> None) (wizards_items st)"

text \<open>
  \<^verbatim>\<open>WizardManager.get_wizard_for\<close>: the loop over the dictionaries. A missing key and a
  \<^verbatim>\<open>None\<close> value both raise \<^verbatim>\<open>KeyError\<close> inside the \<^verbatim>\<open>try\<close>, and the loop goes on; its
  \<^verbatim>\<open>else\<close> clause raises when no dictionary gave a wizard.
\<close>

fun get_wizard_loop :: "(string \<times> 'w user_wizard_map) list \<Rightarrow> member \<Rightarrow> exn + (string \<times> 'w)" where
  "get_wizard_loop [] m =
     Inl (KeyError (''Member '' @ member_str m @ '' does not have an active wizard''))"
| "get_wizard_loop ((name, uw_map) # rest) m =
     (case uw_map (member_id m) of
        None \<Rightarrow> get_wizard_loop rest m
      | Some None \<Rightarrow> get_wizard_loop rest m
      | Some (Some w) \<Rightarrow> Inr (name, w))"

definition get_wizard_for :: "'w wizard_manager \<Rightarrow> member \<Rightarrow> exn + (string \<times> 'w)" where
  "get_wizard_for st m = get_wizard_loop (wizards_items st) m"

text \<open>\<^verbatim>\<open>WizardManager.send_question\<close>.\<close>

definition send_question ::
  "'w wizard_class \<Rightarrow> bot \<Rightarrow> member \<Rightarrow> 'w wizard_manager \<Rightarrow> (exn + unit) \<times> 'w wizard_manager" where
  "send_question W the_bot m st =
     (case get_wizard_for st m of
        Inl e \<Rightarrow> (Inl e, st)
      | Inr (name, w) \<Rightarrow>
          (case wz_question W w of
             Inl e \<Rightarrow> (Inl e, st)
           | Inr q \<Rightarrow> send_message the_bot m q st))"

text \<open>
  \<^verbatim>\<open>WizardManager.cancel_wizards\<close>, a coroutine function: the loop over the dictionaries,
  by name. Deleting a missing key raises \<^verbatim>\<open>KeyError\<close>, which is passed over; after a
  deletion the notice for that kind is sent, and a failure of the send leaves the loop.
\<close>

fun cancel_loop ::
  "bot \<Rightarrow> string list \<Rightarrow> member \<Rightarrow> 'w wizard_manager \<Rightarrow> (exn + unit) \<times> 'w wizard_manager" where
  "cancel_loop the_bot [] m st = (Inr (), st)"
| "cancel_loop the_bot (name # rest) m st =
     (case wizards_at st name (member_id m) of
        None \<Rightarrow> cancel_loop the_bot rest m st
      | Some v \<Rightarrow>
          (case send_message the_bot m (cancel_notice name) (del_entry st name (member_id m)) of
             (Inl e, st') \<Rightarrow> (Inl e, st')
           | (Inr u, st') \<Rightarrow> cancel_loop the_bot rest m st'))"

definition cancel_wizards ::
  "bot \<Rightarrow> member \<Rightarrow> 'w wizard_manager \<Rightarrow> (exn + unit) \<times> 'w wizard_manager" where
  "cancel_wizards the_bot m st = cancel_loop the_bot (map fst (wizards_items st)) m st"

text \<open>
  Calling a coroutine function only builds a coroutine object. Where the call is neither
  awaited nor scheduled, the object is dropped and no statement of the body runs: the
  state stays as it is.
\<close>

definition not_awaited :: "('s \<Rightarrow> 'r \<times> 's) \<Rightarrow> 's \<Rightarrow> 's" where
  "not_awaited coroutine st = st"

text \<open>
  \<^verbatim>\<open>WizardManager.create_new_wizard\<close>. The handler of line 128 calls
  \<^verbatim>\<open>self.cancel_wizards(member)\<close> without \<^verbatim>\<open>await\<close> and raises again.
\<close>

definition create_new_wizard ::
  "'w wizard_class \<Rightarrow> bot \<Rightarrow> member \<Rightarrow> int \<Rightarrow> 'w wizard_manager \<Rightarrow> (exn + unit) \<times> 'w wizard_manager" where
  "create_new_wizard W the_bot m timestamp st =
     (if has_open_wizard st m then (Inl (CommandError ''You already have an ongoing wizard!''), st)
      else
        (let st1 = set_entry st ''new'' (member_id m) (Some (wz_create W (member_id m) timestamp));
             (r, st2) = (case send_message the_bot m start_msg st1 of
                           (Inl e, st') \<Rightarrow> (Inl e, st')
                         | (Inr u, st') \<Rightarrow> send_question W the_bot m st')
         in case r of
              Inr u \<Rightarrow> (Inr (), st2)
            | Inl e \<Rightarrow>
                (if is_Exception e then (Inl e, not_awaited (cancel_wizards the_bot m) st2)
                 else (Inl e, st2))))"

text \<open>\<^verbatim>\<open>WizardManager.create_edit_wizard\<close>, with the same handler.\<close>

definition create_edit_wizard ::
  "'w wizard_class \<Rightarrow> bot \<Rightarrow> member \<Rightarrow> int \<Rightarrow> project \<Rightarrow> 'w wizard_manager
     \<Rightarrow> (exn + unit) \<times> 'w wizard_manager" where
  "create_edit_wizard W the_bot m timestamp proj st =
     (if has_open_wizard st m then (Inl (CommandError ''You already have an ongoing wizard!''), st)
      else
        (let w = wz_all_opts W (wz_create W (member_id m) timestamp);
             st1 = set_entry st ''edit'' (member_id m) (Some w);
             (r, st2) = (case send_message the_bot m (start_edit_msg_fmt proj) st1 of
                           (Inl e, st') \<Rightarrow> (Inl e, st')
                         | (Inr u, st') \<Rightarrow> send_question W the_bot m st')
         in case r of
              Inr u \<Rightarrow> (Inr (), st2)
            | Inl e \<Rightarrow>
                (if is_Exception e then (Inl e, not_awaited (cancel_wizards the_bot m) st2)
                 else (Inl e, st2))))"

text \<open>
  \<^verbatim>\<open>WizardManager.process_answer\<close>. The wizard is an object held by the dictionary, so
  what \<^verbatim>\<open>answer\<close> does to it shows in the dictionary, also when \<^verbatim>\<open>answer\<close> raises.
\<close>

definition process_answer ::
  "'w wizard_class \<Rightarrow> message \<Rightarrow> 'w wizard_manager \<Rightarrow> (exn + unit) \<times> 'w wizard_manager" where
  "process_answer W msg st =
     (case get_wizard_for st (author msg) of
        Inl e \<Rightarrow> (Inl e, st)
      | Inr (wiz_name, wizard) \<Rightarrow>
          (let (r, wizard') = wz_answer W wizard (content msg);
               st' = set_entry st wiz_name (member_id (author msg)) (Some wizard')
           in (case r of Some e \<Rightarrow> Inl e | None \<Rightarrow> Inr (), st')))"

text \<open>\<^verbatim>\<open>WizardManager.close_wizard\<close>.\<close>

definition close_wizard ::
  "'w wizard_class \<Rightarrow> bot \<Rightarrow> member \<Rightarrow> 'w wizard_manager
     \<Rightarrow> (exn + (string \<times> 'w)) \<times> 'w wizard_manager" where
  "close_wizard W the_bot m st =
     (case get_wizard_for st m of
        Inl e \<Rightarrow> (Inl e, st)
      | Inr (wiz_name, wizard) \<Rightarrow>
          (if wz_is_done W wizard then
             (case send_message the_bot m end_msg (del_entry st wiz_name (member_id m)) of
                (Inl e, st') \<Rightarrow> (Inl e, st')
              | (Inr u, st') \<Rightarrow> (Inr (wiz_name, wizard), st'))
           else (Inl (KeyError (''Wizard for user '' @ member_str m @ '' not completed yet'')), st)))"

text \<open>
  The invariant of the manager's state: no user id is a key of both dictionaries.
\<close>

definition one_wizard_per_user :: "'w wizard_manager \<Rightarrow> bool" where
  "one_wizard_per_user st \<longleftrightarrow> dom (new_map st) \<inter> dom (edit_map st) = {}"

section \<open>A wizard class\<close>

text \<open>
  The lists \<^verbatim>\<open>keys\<close> and \<^verbatim>\<open>keys_optional\<close> and the table \<^verbatim>\<open>questions\<close> of
  \<^verbatim>\<open>wizard.py\<close>. Two of the prompts are computed when the question is asked, from the
  names of the genres and of the project types in the database, which are parameters
  here.
\<close>

definition keys :: "string list" where
  "keys = [''title'', ''genre'', ''subgenre'', ''type'', ''pitch'']"

definition keys_optional :: "string list" where
  "keys_optional = [''subgenre'']"

fun join_names :: "string list \<Rightarrow> string" where
  "join_names [] = []"
| "join_names [x] = x"
| "join_names (x # y # ys) = x @ '', '' @ join_names (y # ys)"

definition questions :: "string list \<Rightarrow> string list \<Rightarrow> string \<Rightarrow> string option" where
  "questions genres types key =
     (if key = ''title'' then Some (''What is your project'' @ [CHR 0x27] @ ''s title?'')
      else if key = ''genre'' then
        Some (''What genre is your project? Available genres: '' @ join_names genres @
              ''. (You can specify a more specific sub-genre later.)'')
      else if key = ''subgenre'' then
        Some (''What specific sub-genre is your project? Type `none` if you don'' @ [CHR 0x27] @
              ''t want to add a sub-genre.'')
      else if key = ''type'' then
        Some (''What kind of project? Available types: '' @ join_names types @ ''.'')
      else if key = ''pitch'' then
        Some (''Give an elevator pitch (about 50 words) for your project!'')
      else None)"

text \<open>
  Modelled from the spec: the class that \<^verbatim>\<open>make_wizard(keys, questions, validators,
  serializers, keys_optional)\<close> returns, of the module \<^verbatim>\<open>kaztron.utils.wizard\<close>, which is
  missing from the sources. The wizard holds its owner, its creation time, the keys that
  may be skipped, the index of the current question and the answers given, raw and
  validated. \<open>is_done\<close> holds when the index has reached the number of keys; \<open>question\<close>
  is the prompt of the current key and fails when the wizard is done; \<open>answer\<close> skips
  the current key when it may be skipped and the text is the skip token without regard to
  case, and otherwise runs the key's validator, which is a parameter: a rejection is
  raised and leaves the wizard as it was, an accepted value is stored with the raw text
  and the index advances by one.
\<close>

record wizard =
  owner_id :: string
  created_at :: int
  opts :: "string list"
  current_index :: nat
  answers :: "(string \<times> string) list"
  raw_answers :: "(string \<times> string) list"

definition lower_char :: "char \<Rightarrow> char" where
  "lower_char c =
     (let k = (of_char c :: nat) in if 65 \<le> k \<and> k \<le> 90 then char_of (k + 32) else c)"

definition is_done :: "wizard \<Rightarrow> bool" where
  "is_done w \<longleftrightarrow> current_index w = length keys"

definition question :: "string list \<Rightarrow> string list \<Rightarrow> wizard \<Rightarrow> exn + string" where
  "question genres types w =
     (if current_index w < length keys then
        (case questions genres types (keys ! current_index w) of
           Some q \<Rightarrow> Inr q
         | None \<Rightarrow> Inl (KeyError (keys ! current_index w)))
      else Inl (Exception ''WizardDone''))"

definition answer :: "(string \<Rightarrow> string \<Rightarrow> exn + string) \<Rightarrow> wizard \<Rightarrow> string \<Rightarrow> exn option \<times> wizard" where
  "answer validators w raw_text =
     (if current_index w < length keys then
        (let key = keys ! current_index w
         in if key \<in> set (opts w) \<and> map lower_char raw_text = ''none''
            then (None, w\<lparr>current_index := current_index w + 1\<rparr>)
            else (case validators key raw_text of
                    Inl e \<Rightarrow> (Some e, w)
                  | Inr v \<Rightarrow>
                      (None, w\<lparr>current_index := current_index w + 1,
                                answers := answers w @ [(key, v)],
                                raw_answers := raw_answers w @ [(key, raw_text)]\<rparr>)))
      else (Some (Exception ''WizardDone''), w))"

definition ProjectWizard ::
  "string list \<Rightarrow> string list \<Rightarrow> (string \<Rightarrow> string \<Rightarrow> exn + string) \<Rightarrow> wizard wizard_class" where
  "ProjectWizard genres types validators =
     \<lparr>wz_create = (\<lambda>uid timestamp.
        \<lparr>owner_id = uid, created_at = timestamp, opts = keys_optional, current_index = 0,
         answers = [], raw_answers = []\<rparr>),
      wz_all_opts = (\<lambda>w. w\<lparr>opts := keys\<rparr>),
      wz_question = question genres types,
      wz_is_done = is_done,
      wz_answer = answer validators\<rparr>"

section \<open>An arithmetic and surroundings for the examples\<close>

text \<open>
  An arithmetic in which a float value is the expression that Python evaluates, kept as
  it is written, so that nothing is said about rounding. Whether a power overflows is
  decided on the exact value of the expression: it overflows when that value is as far
  from zero as the largest double plus half a unit in its last place, which is
  \<open>2 ^ 1024 - 2 ^ 970\<close>. Python decides on the rounded value, so the two can differ only
  for a power whose exact value is within rounding distance of that bound.
\<close>

datatype float_expr =
    Lit real
  | Pow float_expr nat
  | Mul float_expr float_expr
  | Add float_expr float_expr
  | TrueDiv int int

fun exact_value :: "float_expr \<Rightarrow> real" where
  "exact_value (Lit r) = r"
| "exact_value (Pow x n) = exact_value x ^ n"
| "exact_value (Mul x y) = exact_value x * exact_value y"
| "exact_value (Add x y) = exact_value x + exact_value y"
| "exact_value (TrueDiv k d) = real_of_int k / real_of_int d"

definition double_overflow :: "real \<Rightarrow> bool" where
  "double_overflow x \<longleftrightarrow> 2 ^ 1024 - 2 ^ 970 \<le> \<bar>x\<bar>"

definition python_floats :: "float_expr float_arith" where
  "python_floats =
     \<lparr>float_lit = Lit,
      float_pow = (\<lambda>x n. if double_overflow (exact_value (Pow x n)) then Inl OverflowError
                          else Inr (Pow x n)),
      float_mul = Mul,
      float_add = Add,
      int_truediv = TrueDiv\<rparr>"

text \<open>
  A session that is ended by an exception while connected, with two tasks still on the
  loop, as the one iteration of the supervisor in which no timer fires; the same with the
  user's interrupt, and with a \<^verbatim>\<open>SystemExit\<close> raised by a handler of the bot, in place of
  the exception; and the world before anything has happened.
\<close>

definition lost :: session_env where
  "lost = \<lparr>loaded = [''projects''], startup = StartupDone, login = None,
           connect = Some (Exception ''connection lost''), spawned = [1, 2],
           close_error = None, await_error = None, unfinished = []\<rparr>"

definition faulty :: iteration where
  "faulty = \<lparr>senv = lost, timer_fired = False, drawn = 0, sleep_interrupted = False\<rparr>"



definition world0 :: "float_expr world" where
  "world0 = \<lparr>tasks = [], trace = []\<rparr>"

text \<open>
  A member, a bot that delivers every message and one that refuses every message, the
  wizard class with two genres and one project type whose validators accept any text, a
  wizard that has just been created and one that has all its answers, and the manager in
  which the member's id is a key of the dictionary of new wizards.
\<close>

definition alice :: member where
  "alice = \<lparr>member_id = ''42'', member_str = ''alice#0001''\<rparr>"

definition delivering :: bot where
  "delivering = (\<lambda>uid text. None)"

definition refusing :: bot where
  "refusing = (\<lambda>uid text. Some (Exception ''Forbidden''))"

definition project_wizards :: "wizard wizard_class" where
  "project_wizards = ProjectWizard [''Fantasy'', ''Horror''] [''Novel''] (\<lambda>key raw_text. Inr raw_text)"

definition fresh :: wizard where
  "fresh = wz_create project_wizards ''42'' 0"

definition finished :: wizard where
  "finished = fresh\<lparr>current_index := 5\<rparr>"

definition with_new :: "wizard option \<Rightarrow> wizard wizard_manager" where
  "with_new v = init_manager\<lparr>new_map := [''42'' \<mapsto> v]\<rparr>"

text \<open>
  The manager in which the member's id is a key of both dictionaries: of the dictionary
  of new wizards with the value \<open>v\<close>, and of the dictionary of edit wizards with a
  wizard that has just been created.
\<close>

definition with_both :: "wizard option \<Rightarrow> wizard wizard_manager" where
  "with_both v = init_manager\<lparr>new_map := [''42'' \<mapsto> v], edit_map := [''42'' \<mapsto> Some fresh]\<rparr>"

section \<open>Properties of the backoff\<close>

lemma backoff_next_ok:
  "int (n_count b) < max_attempts b \<Longrightarrow> float_pow A (base b) (n_count b) = Inr p \<Longrightarrow>
   backoff_next A b k =
     (Inr (float_add A (float_mul A (t0 b) p) (int_truediv A k 1000)),
      b\<lparr>n_count := n_count b + 1\<rparr>)"
  by (simp add: backoff_next_def)

lemma backoff_next_overflow:
  "int (n_count b) < max_attempts b \<Longrightarrow> float_pow A (base b) (n_count b) = Inl e \<Longrightarrow>
   backoff_next A b k = (Inl e, b)"
  by (simp add: backoff_next_def)

lemma backoff_next_fail:
  "\<not> int (n_count b) < max_attempts b \<Longrightarrow>
   backoff_next A b k = (Inl (StopIteration ''Maximum attempts exceeded''), b)"
  by (simp add: backoff_next_def)

lemma jitter_bounds: "k \<in> randint_range \<Longrightarrow> 0 \<le> jitter_exact k \<and> jitter_exact k \<le> 1"
  by (simp add: randint_range_def jitter_exact_def)

lemma next_calls_run:
  "int (n_count b) \<le> max_attempts b \<Longrightarrow>
   length ks = nat (max_attempts b - int (n_count b)) + 1 \<Longrightarrow>
   \<forall>i < length ks - 1. float_pow A (base b) (n_count b + i) = Inr (pw (n_count b + i)) \<Longrightarrow>
   next_calls A b ks =
     map (\<lambda>i. Inr (float_add A (float_mul A (t0 b) (pw (n_count b + i)))
                     (int_truediv A (ks ! i) 1000))) [0..<length ks - 1]
     @ [Inl (StopIteration ''Maximum attempts exceeded'')]"
proof (induction ks arbitrary: b)
  case Nil
  then show ?case by simp
next
  case (Cons k ks)
  show ?case
  proof (cases "int (n_count b) < max_attempts b")
    case False
    with Cons.prems have "ks = []" by simp
    with False show ?thesis by (simp add: backoff_next_fail)
  next
    case True
    let ?b = "b\<lparr>n_count := n_count b + 1\<rparr>"
    from True Cons.prems(2) have len: "length ks = nat (max_attempts ?b - int (n_count ?b)) + 1"
      by simp
    from True have le: "int (n_count ?b) \<le> max_attempts ?b" by simp
    from len have pos: "0 < length ks" by simp
    from Cons.prems(3) pos have p0: "float_pow A (base b) (n_count b) = Inr (pw (n_count b))"
      by (metis add.right_neutral diff_Suc_1 length_Cons)
    have pw': "\<forall>i < length ks - 1. float_pow A (base ?b) (n_count ?b + i) = Inr (pw (n_count ?b + i))"
    proof (intro allI impI)
      fix i assume "i < length ks - 1"
      then have "Suc i < length (k # ks) - 1" using pos by simp
      with Cons.prems(3) have "float_pow A (base b) (n_count b + Suc i) = Inr (pw (n_count b + Suc i))"
        by blast
      then show "float_pow A (base ?b) (n_count ?b + i) = Inr (pw (n_count ?b + i))" by simp
    qed
    have up: "[0..<length ks] = 0 # map Suc [0..<length ks - 1]"
      using pos by (cases ks) (simp_all add: upt_conv_Cons map_Suc_upt del: upt_Suc)
    have step: "next_calls A b (k # ks) =
        Inr (float_add A (float_mul A (t0 b) (pw (n_count b))) (int_truediv A k 1000))
        # next_calls A ?b ks"
      using True p0 by (simp add: backoff_next_ok)
    have rest: "next_calls A ?b ks =
        map (\<lambda>i. Inr (float_add A (float_mul A (t0 b) (pw (n_count b + Suc i)))
                        (int_truediv A (ks ! i) 1000))) [0..<length ks - 1]
        @ [Inl (StopIteration ''Maximum attempts exceeded'')]"
      using Cons.IH [OF le len pw'] by simp
    have shift: "map (\<lambda>i. Inr (float_add A (float_mul A (t0 b) (pw (n_count b + i)))
                     (int_truediv A ((k # ks) ! i) 1000))) [0..<length (k # ks) - 1]
        = Inr (float_add A (float_mul A (t0 b) (pw (n_count b))) (int_truediv A k 1000)) #
          map (\<lambda>i. Inr (float_add A (float_mul A (t0 b) (pw (n_count b + Suc i)))
                        (int_truediv A (ks ! i) 1000))) [0..<length ks - 1]"
      by (simp add: up comp_def del: upt_Suc)
    show ?thesis
      by (simp only: step rest shift append_Cons)
  qed
qed

text \<open>
  Claim C1, as the code has it, for any float arithmetic. While the counter is below
  \<^verbatim>\<open>max_attempts\<close>, \<^verbatim>\<open>next\<close> first computes the power \<^verbatim>\<open>base ** n\<close>. If the power is in
  range, \<^verbatim>\<open>next\<close> returns \<^verbatim>\<open>t0 * base ** n + k / 1000\<close> for the integer \<open>k\<close> that
  \<^verbatim>\<open>randint(0, 1000)\<close> draws, and adds one to the counter; if the power overflows,
  \<^verbatim>\<open>next\<close> raises \<^verbatim>\<open>OverflowError\<close> and the counter is as before. The exact quotient
  \<open>k / 1000\<close> lies in the closed interval from 0 to 1, the value 1 included; how \<open>k\<close> is
  distributed is not modelled. Once the counter has reached \<^verbatim>\<open>max_attempts\<close>, \<^verbatim>\<open>next\<close>
  raises \<^verbatim>\<open>StopIteration\<close> and the counter is as before. Hence, for a non-negative
  \<^verbatim>\<open>max_attempts\<close> below which no power of the base overflows, that many consecutive
  calls after a reset return their delays and the call after them raises.
\<close>

theorem backoff_next_contract:
  "(int (n_count b) < max_attempts b \<and> float_pow A (base b) (n_count b) = Inr p \<longrightarrow>
      backoff_next A b k =
        (Inr (float_add A (float_mul A (t0 b) p) (int_truediv A k 1000)),
         b\<lparr>n_count := n_count b + 1\<rparr>))
   \<and> (int (n_count b) < max_attempts b \<and> float_pow A (base b) (n_count b) = Inl e \<longrightarrow>
      backoff_next A b k = (Inl e, b))
   \<and> (k \<in> randint_range \<longrightarrow> 0 \<le> jitter_exact k \<and> jitter_exact k \<le> 1)
   \<and> (\<not> int (n_count b) < max_attempts b \<longrightarrow>
      backoff_next A b k = (Inl (StopIteration ''Maximum attempts exceeded''), b))
   \<and> (0 \<le> max_attempts b \<and> length ks = nat (max_attempts b) + 1
       \<and> (\<forall>i < nat (max_attempts b). float_pow A (base b) i = Inr (pw i)) \<longrightarrow>
      next_calls A (backoff_reset b) ks =
        map (\<lambda>i. Inr (float_add A (float_mul A (t0 b) (pw i)) (int_truediv A (ks ! i) 1000)))
          [0..<nat (max_attempts b)]
        @ [Inl (StopIteration ''Maximum attempts exceeded'')])"
proof -
  have "next_calls A (backoff_reset b) ks =
        map (\<lambda>i. Inr (float_add A (float_mul A (t0 b) (pw i)) (int_truediv A (ks ! i) 1000)))
          [0..<nat (max_attempts b)]
        @ [Inl (StopIteration ''Maximum attempts exceeded'')]"
    if "0 \<le> max_attempts b" "length ks = nat (max_attempts b) + 1"
       "\<forall>i < nat (max_attempts b). float_pow A (base b) i = Inr (pw i)"
    using next_calls_run [of "backoff_reset b" ks A pw] that
    by (simp add: backoff_reset_def)
  then show ?thesis
    by (simp add: backoff_next_ok backoff_next_overflow backoff_next_fail jitter_bounds)
qed

text \<open>
  In the arithmetic of the examples, the powers of a base between \<open>-2\<close> and \<open>2\<close> do not
  overflow up to the exponent 1000.
\<close>

lemma no_overflow_small: "\<bar>x\<bar> \<le> 2 \<Longrightarrow> n \<le> 1000 \<Longrightarrow> \<not> double_overflow (x ^ n)"
proof -
  assume a: "\<bar>x\<bar> \<le> 2" and n: "n \<le> 1000"
  have "\<bar>x ^ n\<bar> = \<bar>x\<bar> ^ n" by (simp add: power_abs)
  also have "\<dots> \<le> 2 ^ n" using a by (simp add: power_mono)
  also have "\<dots> \<le> (2::real) ^ 1000" using n by (intro power_increasing) simp_all
  also have "\<dots> < 2 ^ 1024 - 2 ^ 970" by simp
  finally show ?thesis by (simp add: double_overflow_def)
qed

lemma python_floats_pow_small:
  "\<bar>exact_value x\<bar> \<le> 2 \<Longrightarrow> n \<le> 1000 \<Longrightarrow> float_pow python_floats x n = Inr (Pow x n)"
  by (simp add: python_floats_def no_overflow_small)

lemma python_floats_ops:
  "float_lit python_floats = Lit" "float_mul python_floats = Mul"
  "float_add python_floats = Add" "int_truediv python_floats = TrueDiv"
  by (simp_all add: python_floats_def)

text \<open>
  Claim C1, witness: a backoff with base 2 and two attempts, below its limit and at its
  limit; a backoff with base 10 whose counter is 309, where the power overflows; and
  three consecutive calls after a reset.
\<close>

theorem backoff_next_contract_witness:
  "backoff_next python_floats (Backoff (Lit 3) (Lit 2) 2) 500 =
     (Inr (Add (Mul (Lit 3) (Pow (Lit 2) 0)) (TrueDiv 500 1000)),
      (Backoff (Lit 3) (Lit 2) 2)\<lparr>n_count := 1\<rparr>)
   \<and> backoff_next python_floats ((Backoff (Lit 1) (Lit 10) 400)\<lparr>n_count := 309\<rparr>) 500 =
       (Inl OverflowError, (Backoff (Lit 1) (Lit 10) 400)\<lparr>n_count := 309\<rparr>)
   \<and> 0 \<le> jitter_exact 500 \<and> jitter_exact 500 \<le> 1
   \<and> backoff_next python_floats ((Backoff (Lit 3) (Lit 2) 2)\<lparr>n_count := 2\<rparr>) 500
       = (Inl (StopIteration ''Maximum attempts exceeded''),
          (Backoff (Lit 3) (Lit 2) 2)\<lparr>n_count := 2\<rparr>)
   \<and> next_calls python_floats (backoff_reset (Backoff (Lit 3) (Lit 2) 2)) [0, 1000, 500]
       = [Inr (Add (Mul (Lit 3) (Pow (Lit 2) 0)) (TrueDiv 0 1000)),
          Inr (Add (Mul (Lit 3) (Pow (Lit 2) 1)) (TrueDiv 1000 1000)),
          Inl (StopIteration ''Maximum attempts exceeded'')]"
proof -
  let ?b = "Backoff (Lit 3) (Lit 2) 2 :: float_expr backoff"
  let ?c = "(Backoff (Lit 1) (Lit 10) 400)\<lparr>n_count := 309\<rparr> :: float_expr backoff"
  let ?d = "?b\<lparr>n_count := 2\<rparr>"
  have p: "float_pow python_floats (Lit 2) i = Inr (Pow (Lit 2) i)" if "i < 2" for i
    using that by (simp add: python_floats_pow_small)
  have o: "float_pow python_floats (Lit 10) 309 = Inl OverflowError"
    by (simp add: python_floats_def double_overflow_def)
  have f: "t0 ?b = Lit 3" "base ?b = Lit 2" "max_attempts ?b = 2" "n_count ?b = 0"
          "base ?c = Lit 10" "max_attempts ?c = 400" "n_count ?c = 309"
          "max_attempts ?d = 2" "n_count ?d = 2"
    by (simp_all add: Backoff_def backoff_reset_def)
  note t1 = backoff_next_contract [where b = ?b and A = python_floats and p = "Pow (Lit 2) 0"
              and k = 500 and pw = "\<lambda>i. Pow (Lit 2) i" and ks = "[0, 1000, 500]"]
  note t2 = backoff_next_contract [where b = ?c and A = python_floats and e = OverflowError
              and k = 500]
  note t3 = backoff_next_contract [where b = ?d and A = python_floats and k = 500]
  have h1: "int (n_count ?b) < max_attempts ?b
      \<and> float_pow python_floats (base ?b) (n_count ?b) = Inr (Pow (Lit 2) 0)"
    by (simp add: f p)
  have h2: "int (n_count ?c) < max_attempts ?c
      \<and> float_pow python_floats (base ?c) (n_count ?c) = Inl OverflowError"
    by (simp add: f o)
  have h3: "(500::int) \<in> randint_range" by (simp add: randint_range_def)
  have h4: "\<not> int (n_count ?d) < max_attempts ?d" by (simp add: f)
  have h5: "0 \<le> max_attempts ?b \<and> length [0, 1000, 500 :: int] = nat (max_attempts ?b) + 1
       \<and> (\<forall>i < nat (max_attempts ?b). float_pow python_floats (base ?b) i = Inr (Pow (Lit 2) i))"
    by (simp add: f p)
  from t1 h1 have a: "backoff_next python_floats ?b 500 =
        (Inr (float_add python_floats (float_mul python_floats (t0 ?b) (Pow (Lit 2) 0))
               (int_truediv python_floats 500 1000)),
         ?b\<lparr>n_count := n_count ?b + 1\<rparr>)" by blast
  from t2 h2 have b: "backoff_next python_floats ?c 500 = (Inl OverflowError, ?c)" by blast
  from t1 h3 have c: "0 \<le> jitter_exact 500 \<and> jitter_exact 500 \<le> 1" by blast
  from t3 h4 have d: "backoff_next python_floats ?d 500
       = (Inl (StopIteration ''Maximum attempts exceeded''), ?d)" by blast
  from t1 h5 have e: "next_calls python_floats (backoff_reset ?b) [0, 1000, 500] =
        map (\<lambda>i. Inr (float_add python_floats (float_mul python_floats (t0 ?b) (Pow (Lit 2) i))
                        (int_truediv python_floats ([0, 1000, 500] ! i) 1000)))
          [0..<nat (max_attempts ?b)]
        @ [Inl (StopIteration ''Maximum attempts exceeded'')]" by blast
  have u: "[0..<nat (max_attempts ?b)] = [0, 1]"
    by (simp add: f upt_conv_Cons)
  have a': "backoff_next python_floats ?b 500 =
     (Inr (Add (Mul (Lit 3) (Pow (Lit 2) 0)) (TrueDiv 500 1000)), ?b\<lparr>n_count := 1\<rparr>)"
    unfolding a python_floats_ops f by simp
  have e': "next_calls python_floats (backoff_reset ?b) [0, 1000, 500]
       = [Inr (Add (Mul (Lit 3) (Pow (Lit 2) 0)) (TrueDiv 0 1000)),
          Inr (Add (Mul (Lit 3) (Pow (Lit 2) 1)) (TrueDiv 1000 1000)),
          Inl (StopIteration ''Maximum attempts exceeded'')]"
    unfolding e python_floats_ops f by (simp add: numeral_2_eq_2)
  from a' b c d e' show ?thesis by blast
qed

text \<open>
  Claim C1, counterexample, in two parts. The jitter does not stay below 1:
  \<^verbatim>\<open>randint(0, 1000)\<close> can return 1000, the quotient \<^verbatim>\<open>1000 / 1000\<close> is exactly 1, and the
  first delay of the supervisor's backoff is then \<^verbatim>\<open>3.0 * 1.58 ** 0 + 1000 / 1000\<close>, which
  is 4. And a state below its limit need not return a delay: \<^verbatim>\<open>Backoff(1.0, 10.0, 400)\<close>
  with the counter at 309 raises \<^verbatim>\<open>OverflowError\<close> from \<^verbatim>\<open>10.0 ** 309\<close>, and the counter
  stays at 309.
\<close>

theorem backoff_next_counterexample:
  "1000 \<in> randint_range
   \<and> backoff_next python_floats (Backoff (Lit 3) (Lit 1.58) 12) 1000 =
       (Inr (Add (Mul (Lit 3) (Pow (Lit 1.58) 0)) (TrueDiv 1000 1000)),
        (Backoff (Lit 3) (Lit 1.58) 12)\<lparr>n_count := 1\<rparr>)
   \<and> \<not> jitter_exact 1000 < 1
   \<and> exact_value (Add (Mul (Lit 3) (Pow (Lit 1.58) 0)) (TrueDiv 1000 1000)) = 4
   \<and> int (n_count ((Backoff (Lit 1) (Lit 10) 400)\<lparr>n_count := 309\<rparr>))
       < max_attempts ((Backoff (Lit 1) (Lit 10) 400)\<lparr>n_count := 309\<rparr>)
   \<and> backoff_next python_floats ((Backoff (Lit 1) (Lit 10) 400)\<lparr>n_count := 309\<rparr>) 0 =
       (Inl OverflowError, (Backoff (Lit 1) (Lit 10) 400)\<lparr>n_count := 309\<rparr>)"
  by (simp add: randint_range_def backoff_next_def Backoff_def backoff_reset_def jitter_exact_def
      python_floats_def double_overflow_def)

text \<open>
  Claim C5. When the scheduled action fires with the tag \<open>sequence\<close>, it resets the
  backoff, so the counter is 0, if the tag equals the counter at that moment; with any
  other tag it leaves the backoff as it is.
\<close>

theorem reset_backoff_guard:
  "(sequence = n_count b \<longrightarrow>
      reset_backoff b sequence = backoff_reset b \<and> n_count (reset_backoff b sequence) = 0)
   \<and> (sequence \<noteq> n_count b \<longrightarrow> reset_backoff b sequence = b)"
  by (simp add: reset_backoff_def backoff_reset_def)

text \<open>
  Claim C5, witness: an action tagged 4 firing when the counter is 4, and when it is 5.
\<close>

theorem reset_backoff_guard_witness:
  "reset_backoff ((Backoff (3.0::real) 1.58 12)\<lparr>n_count := 4\<rparr>) 4 = Backoff 3.0 1.58 12
   \<and> reset_backoff ((Backoff (3.0::real) 1.58 12)\<lparr>n_count := 5\<rparr>) 4
       = (Backoff 3.0 1.58 12)\<lparr>n_count := 5\<rparr>"
  using reset_backoff_guard [of 4 "(Backoff (3.0::real) 1.58 12)\<lparr>n_count := 4\<rparr>"]
        reset_backoff_guard [of 4 "(Backoff (3.0::real) 1.58 12)\<lparr>n_count := 5\<rparr>"]
  by (simp add: Backoff_def backoff_reset_def)

section \<open>Properties of the connection session\<close>





lemma try_suite_result:
  "fst (try_suite env w) = (case login env of Some e \<Rightarrow> Some e | None \<Rightarrow> connect env)"
  by (simp add: try_suite_def Let_def split: option.split)





















lemma try_suite_result_any: "fst (try_suite env w) = fst (try_suite env w')"
  by (simp add: try_suite_result)

lemma reboot_loop_returned:
  assumes "run (senv it) (emit [CallLater wt (n_count bo)] w) = (None, w2)"
      and "backoff_next A (if timer_fired it then reset_backoff bo (n_count bo) else bo) (drawn it)
             = (Inr tn, bo2)"
      and "\<not> sleep_interrupted it"
  shows "reboot_loop A bo wt (it # its) w =
     reboot_loop A bo2 tn its
       (emit [LogError ''Bot halted unexpectedly.'', TimerCancel, LogRestartIn tn, Sleep tn,
              LogInfo ''Restarting bot...''] w2)"
  using assms by (simp add: Let_def emit_def)


lemma reboot_loop_limit:
  assumes "run (senv it) (emit [CallLater wt (n_count bo)] w) = (None, w2)"
      and "backoff_next A (if timer_fired it then reset_backoff bo (n_count bo) else bo) (drawn it)
             = (Inl e, bo2)"
  shows "reboot_loop A bo wt (it # its) w =
     (Raised e, emit [LogError ''Bot halted unexpectedly.'', TimerCancel] w2)"
  using assms by (simp add: Let_def)





section \<open>Properties of the supervisor loop\<close>

lemma reboot_loop_failures_running:
  assumes "\<forall>it \<in> set script. (\<forall>w :: 'f world. fst (run (senv it) w) = None) \<and> \<not> timer_fired it
             \<and> \<not> sleep_interrupted it"
      and "int (n_count bo) + int (length script) \<le> max_attempts bo"
      and "\<forall>n. int n < max_attempts bo \<longrightarrow> (\<exists>p. float_pow A (base bo) n = Inr p)"
  shows "\<exists>bo' wt' w'. reboot_loop (A :: 'f float_arith) bo wt script w = (Running bo' wt', w')
           \<and> n_count bo' = n_count bo + length script"
  using assms
proof (induction script arbitrary: bo wt w)
  case Nil
  then show ?case by simp
next
  case (Cons it its)
  let ?w1 = "emit [CallLater wt (n_count bo)] w"
  let ?bo2 = "bo\<lparr>n_count := n_count bo + 1\<rparr>"
  from Cons.prems(1) have "fst (run (senv it) ?w1) = None" by simp
  then have r: "run (senv it) ?w1 = (None, snd (run (senv it) ?w1))"
    by (metis prod.collapse)
  from Cons.prems have nf: "\<not> timer_fired it" and ns: "\<not> sleep_interrupted it"
    and lt: "int (n_count bo) < max_attempts bo" by simp_all
  from lt Cons.prems(3) obtain p where p: "float_pow A (base bo) (n_count bo) = Inr p"
    by blast
  let ?tn = "float_add A (float_mul A (t0 bo) p) (int_truediv A (drawn it) 1000)"
  from nf lt p have n: "backoff_next A (if timer_fired it then reset_backoff bo (n_count bo) else bo)
      (drawn it) = (Inr ?tn, ?bo2)"
    by (simp add: backoff_next_ok)
  note step = reboot_loop_returned [OF r n ns, of its]
  from Cons.prems have a1: "\<forall>it \<in> set its. (\<forall>w :: 'f world. fst (run (senv it) w) = None) \<and> \<not> timer_fired it
      \<and> \<not> sleep_interrupted it"
    and a2: "int (n_count ?bo2) + int (length its) \<le> max_attempts ?bo2"
    and a3: "\<forall>n. int n < max_attempts ?bo2 \<longrightarrow> (\<exists>p. float_pow A (base ?bo2) n = Inr p)"
    by simp_all
  from Cons.IH [OF a1 a2 a3] show ?case
    by (simp only: step) simp
qed

lemma reboot_loop_failures_limit:
  assumes "\<forall>it \<in> set script. (\<forall>w :: 'f world. fst (run (senv it) w) = None) \<and> \<not> timer_fired it
             \<and> \<not> sleep_interrupted it"
      and "int (n_count bo) \<le> max_attempts bo"
      and "int (length script) = max_attempts bo - int (n_count bo) + 1"
      and "\<forall>n. int n < max_attempts bo \<longrightarrow> (\<exists>p. float_pow A (base bo) n = Inr p)"
  shows "fst (reboot_loop (A :: 'f float_arith) bo wt script w)
           = Raised (StopIteration ''Maximum attempts exceeded'')"
  using assms
proof (induction script arbitrary: bo wt w)
  case Nil
  then show ?case by simp
next
  case (Cons it its)
  let ?w1 = "emit [CallLater wt (n_count bo)] w"
  from Cons.prems(1) have "fst (run (senv it) ?w1) = None" by simp
  then have r: "run (senv it) ?w1 = (None, snd (run (senv it) ?w1))"
    by (metis prod.collapse)
  from Cons.prems have nf: "\<not> timer_fired it" and ns: "\<not> sleep_interrupted it" by simp_all
  show ?case
  proof (cases "int (n_count bo) < max_attempts bo")
    case False
    with nf have n: "backoff_next A (if timer_fired it then reset_backoff bo (n_count bo) else bo)
        (drawn it) = (Inl (StopIteration ''Maximum attempts exceeded''), bo)"
      by (simp add: backoff_next_fail)
    show ?thesis
      by (simp only: reboot_loop_limit [OF r n]) simp
  next
    case True
    let ?bo2 = "bo\<lparr>n_count := n_count bo + 1\<rparr>"
    from True Cons.prems(4) obtain p where p: "float_pow A (base bo) (n_count bo) = Inr p"
      by blast
    let ?tn = "float_add A (float_mul A (t0 bo) p) (int_truediv A (drawn it) 1000)"
    from nf True p have n: "backoff_next A (if timer_fired it then reset_backoff bo (n_count bo) else bo)
        (drawn it) = (Inr ?tn, ?bo2)"
      by (simp add: backoff_next_ok)
    note step = reboot_loop_returned [OF r n ns, of its]
    from Cons.prems True have a1: "\<forall>it \<in> set its. (\<forall>w :: 'f world. fst (run (senv it) w) = None)
        \<and> \<not> timer_fired it \<and> \<not> sleep_interrupted it"
      and a2: "int (n_count ?bo2) \<le> max_attempts ?bo2"
      and a3: "int (length its) = max_attempts ?bo2 - int (n_count ?bo2) + 1"
      and a4: "\<forall>n. int n < max_attempts ?bo2 \<longrightarrow> (\<exists>p. float_pow A (base ?bo2) n = Inr p)"
      by simp_all
    from Cons.IH [OF a1 a2 a3 a4] show ?thesis
      by (simp only: step)
  qed
qed

lemma supervise_limit:
  "fst (reboot_loop A bo (float_lit A 0) script w) = Raised (StopIteration s) \<Longrightarrow>
   fst (supervise A bo script w) = Raises (SystemExit RETRY_MAX_ATTEMPTS)"
  by (cases "reboot_loop A bo (float_lit A 0) script w") (simp add: supervise_def)

lemma supervise_running:
  "reboot_loop A bo (float_lit A 0) script w = (Running bo' wt, w') \<Longrightarrow>
   supervise A bo script w = (StillRunning bo' wt, w')"
  by (simp add: supervise_def)

text \<open>
  Claim C2, as the code has it. Whenever the loop is left by \<^verbatim>\<open>StopIteration\<close>, the
  process exits with status \<open>RETRY_MAX_ATTEMPTS\<close>, which differs from \<open>OK\<close> and from
  \<open>ERROR\<close>. With a backoff of \<open>m\<close> attempts, none of whose powers overflows before the
  limit, and sessions that all fail and return without the reset action having fired,
  this happens at the failure number \<open>m + 1\<close>: after \<open>m\<close> or fewer such failures the loop
  is still running, the counter telling their number.
\<close>

theorem supervise_retry_limit:
  "((\<exists>s. fst (reboot_loop (A :: 'f float_arith) bo (float_lit A 0) script w)
            = Raised (StopIteration s)) \<longrightarrow>
      fst (supervise A bo script w) = Raises (SystemExit RETRY_MAX_ATTEMPTS))
   \<and> RETRY_MAX_ATTEMPTS \<noteq> OK \<and> RETRY_MAX_ATTEMPTS \<noteq> ERROR
   \<and> ((\<forall>it \<in> set script. (\<forall>w :: 'f world. fst (run (senv it) w) = None) \<and> \<not> timer_fired it
                           \<and> \<not> sleep_interrupted it) \<and> 0 \<le> m
       \<and> (\<forall>n < nat m. \<exists>p. float_pow A b n = Inr p) \<longrightarrow>
       (length script = nat m + 1 \<longrightarrow>
          fst (supervise A (Backoff i b m) script w) = Raises (SystemExit RETRY_MAX_ATTEMPTS))
       \<and> (length script \<le> nat m \<longrightarrow>
          (\<exists>bo' wt. fst (supervise A (Backoff i b m) script w) = StillRunning bo' wt
                    \<and> n_count bo' = length script)))"
proof (intro conjI impI)
  assume "\<exists>s. fst (reboot_loop A bo (float_lit A 0) script w) = Raised (StopIteration s)"
  then show "fst (supervise A bo script w) = Raises (SystemExit RETRY_MAX_ATTEMPTS)"
    using supervise_limit by blast
next
  show "RETRY_MAX_ATTEMPTS \<noteq> OK" by (simp add: RETRY_MAX_ATTEMPTS_def OK_def)
  show "RETRY_MAX_ATTEMPTS \<noteq> ERROR" by (simp add: RETRY_MAX_ATTEMPTS_def ERROR_def)
next
  assume a: "(\<forall>it \<in> set script. (\<forall>w :: 'f world. fst (run (senv it) w) = None) \<and> \<not> timer_fired it
                           \<and> \<not> sleep_interrupted it) \<and> 0 \<le> m
       \<and> (\<forall>n < nat m. \<exists>p. float_pow A b n = Inr p)"
     and l: "length script = nat m + 1"
  let ?bo = "Backoff i b m"
  have f: "n_count ?bo = 0" "max_attempts ?bo = m" "base ?bo = b"
    by (simp_all add: Backoff_def backoff_reset_def)
  from a have o: "\<forall>n. int n < max_attempts ?bo \<longrightarrow> (\<exists>p. float_pow A (base ?bo) n = Inr p)"
    by (simp add: f)
  from a l f have "fst (reboot_loop A ?bo (float_lit A 0) script w)
      = Raised (StopIteration ''Maximum attempts exceeded'')"
    by (intro reboot_loop_failures_limit o) simp_all
  then show "fst (supervise A ?bo script w) = Raises (SystemExit RETRY_MAX_ATTEMPTS)"
    by (rule supervise_limit)
next
  assume a: "(\<forall>it \<in> set script. (\<forall>w :: 'f world. fst (run (senv it) w) = None) \<and> \<not> timer_fired it
                           \<and> \<not> sleep_interrupted it) \<and> 0 \<le> m
       \<and> (\<forall>n < nat m. \<exists>p. float_pow A b n = Inr p)"
     and l: "length script \<le> nat m"
  let ?bo = "Backoff i b m"
  have f: "n_count ?bo = 0" "max_attempts ?bo = m" "base ?bo = b"
    by (simp_all add: Backoff_def backoff_reset_def)
  from a have o: "\<forall>n. int n < max_attempts ?bo \<longrightarrow> (\<exists>p. float_pow A (base ?bo) n = Inr p)"
    by (simp add: f)
  from a l f have "int (n_count ?bo) + int (length script) \<le> max_attempts ?bo" by linarith
  with a o obtain bo' wt' w' where
      "reboot_loop A ?bo (float_lit A 0) script w = (Running bo' wt', w')"
      "n_count bo' = n_count ?bo + length script"
    using reboot_loop_failures_running [of script ?bo A "float_lit A 0" w] by blast
  then show "\<exists>bo' wt. fst (supervise A ?bo script w) = StillRunning bo' wt
      \<and> n_count bo' = length script"
    using f by (simp add: supervise_running)
qed

lemma run_faulty: "fst (run (senv faulty) w) = None"
  by (simp add: run_def faulty_def lost_def session_def try_suite_def handlers_def Let_def)

lemma faulty_flags: "\<not> timer_fired faulty \<and> \<not> sleep_interrupted faulty"
  by (simp add: faulty_def)

lemma faulty_script:
  "set script \<subseteq> {faulty} \<Longrightarrow>
   \<forall>it \<in> set script. (\<forall>w :: 'f world. fst (run (senv it) w) = None) \<and> \<not> timer_fired it
                           \<and> \<not> sleep_interrupted it"
  using run_faulty faulty_flags by auto

lemma supervisor_powers:
  "n < 1000 \<Longrightarrow> \<exists>p. float_pow python_floats (Lit 1.58) n = Inr p"
  by (simp add: python_floats_pow_small)

text \<open>
  Claim C2, witness: a backoff of three attempts; four failing sessions end the process,
  three leave the loop running.
\<close>

theorem supervise_retry_limit_witness:
  "fst (supervise python_floats (Backoff (Lit 3) (Lit 1.58) 3) [faulty, faulty, faulty, faulty] world0)
     = Raises (SystemExit RETRY_MAX_ATTEMPTS)
   \<and> RETRY_MAX_ATTEMPTS \<noteq> OK \<and> RETRY_MAX_ATTEMPTS \<noteq> ERROR
   \<and> (\<exists>bo' wt. fst (supervise python_floats (Backoff (Lit 3) (Lit 1.58) 3) [faulty, faulty, faulty]
                      world0) = StillRunning bo' wt
                    \<and> n_count bo' = 3)"
proof -
  let ?four = "[faulty, faulty, faulty, faulty]" and ?three = "[faulty, faulty, faulty]"
  let ?bo = "Backoff (Lit 3) (Lit 1.58) 3 :: float_expr backoff"
  have pw: "\<forall>n < nat 3. \<exists>p. float_pow python_floats (Lit 1.58) n = Inr p"
    using supervisor_powers by simp
  have h4: "(\<forall>it \<in> set ?four. (\<forall>w :: float_expr world. fst (run (senv it) w) = None)
               \<and> \<not> timer_fired it \<and> \<not> sleep_interrupted it) \<and> 0 \<le> (3::int)
            \<and> (\<forall>n < nat 3. \<exists>p. float_pow python_floats (Lit 1.58) n = Inr p)"
    using faulty_script [of ?four] pw by simp
  have h3: "(\<forall>it \<in> set ?three. (\<forall>w :: float_expr world. fst (run (senv it) w) = None)
               \<and> \<not> timer_fired it \<and> \<not> sleep_interrupted it) \<and> 0 \<le> (3::int)
            \<and> (\<forall>n < nat 3. \<exists>p. float_pow python_floats (Lit 1.58) n = Inr p)"
    using faulty_script [of ?three] pw by simp
  have l4: "length ?four = nat 3 + 1" and l3: "length ?three \<le> nat 3" by simp_all
  have len3: "length ?three = 3" by simp
  note t4 = supervise_retry_limit [where A = python_floats and bo = ?bo and script = ?four
              and w = world0 and m = 3 and i = "Lit 3" and b = "Lit 1.58"]
  note t3 = supervise_retry_limit [where A = python_floats and bo = ?bo and script = ?three
              and w = world0 and m = 3 and i = "Lit 3" and b = "Lit 1.58"]
  from t4 h4 l4 have a: "fst (supervise python_floats ?bo ?four world0)
     = Raises (SystemExit RETRY_MAX_ATTEMPTS)" by blast
  from t3 h3 l3 have c: "\<exists>bo' wt. fst (supervise python_floats ?bo ?three world0) = StillRunning bo' wt
                    \<and> n_count bo' = length ?three" by blast
  from t4 have d: "RETRY_MAX_ATTEMPTS \<noteq> OK \<and> RETRY_MAX_ATTEMPTS \<noteq> ERROR" by blast
  from c have c': "\<exists>bo' wt. fst (supervise python_floats ?bo ?three world0) = StillRunning bo' wt
                    \<and> n_count bo' = 3" unfolding len3 .
  from a c' d show ?thesis by blast
qed

text \<open>
  Claim C2, counterexample to the exit coming after \<^verbatim>\<open>max_attempts\<close> consecutive
  failures: the supervisor's backoff has twelve attempts, and after twelve failing
  sessions in a row the process has not exited; the thirteenth failure ends it.
\<close>

theorem supervise_retry_limit_counterexample:
  "fst (run_reboot_loop python_floats (replicate 12 faulty) world0)
     \<noteq> Raises (SystemExit RETRY_MAX_ATTEMPTS)
   \<and> fst (run_reboot_loop python_floats (replicate 13 faulty) world0)
       = Raises (SystemExit RETRY_MAX_ATTEMPTS)"
proof -
  let ?bo = "Backoff (Lit 3) (Lit 1.58) 12 :: float_expr backoff"
  let ?w = "emit [LogInfo ''Welcome to KazTron, booting up...''] world0"
  have f: "n_count ?bo = 0" "max_attempts ?bo = 12" "base ?bo = Lit 1.58"
    by (simp_all add: Backoff_def backoff_reset_def)
  have o: "\<forall>n. int n < max_attempts ?bo \<longrightarrow> (\<exists>p. float_pow python_floats (base ?bo) n = Inr p)"
    by (simp add: Backoff_def backoff_reset_def python_floats_pow_small)
  have "int (n_count ?bo) + int (length (replicate 12 faulty)) \<le> max_attempts ?bo"
    by (simp add: Backoff_def backoff_reset_def)
  then obtain bo' wt' w' where
    "reboot_loop python_floats ?bo (Lit 0) (replicate 12 faulty) ?w = (Running bo' wt', w')"
    using reboot_loop_failures_running [OF faulty_script _ o, of "replicate 12 faulty" "Lit 0" ?w]
    by auto
  then have 1: "fst (run_reboot_loop python_floats (replicate 12 faulty) world0)
      \<noteq> Raises (SystemExit RETRY_MAX_ATTEMPTS)"
    by (simp add: run_reboot_loop_def supervise_def python_floats_ops)
  have "fst (reboot_loop python_floats ?bo (Lit 0) (replicate 13 faulty) ?w)
      = Raised (StopIteration ''Maximum attempts exceeded'')"
    by (rule reboot_loop_failures_limit [OF faulty_script _ _ o])
       (simp_all add: Backoff_def backoff_reset_def)
  then have 2: "fst (run_reboot_loop python_floats (replicate 13 faulty) world0)
      = Raises (SystemExit RETRY_MAX_ATTEMPTS)"
    using supervise_limit [of python_floats ?bo "replicate 13 faulty" ?w]
    by (simp add: run_reboot_loop_def python_floats_ops)
  from 1 2 show ?thesis by blast
qed

section \<open>Properties of the wizard manager\<close>

text \<open>
  The operations are taken one at a time: what another handler does while an operation
  waits for a message to go out is outside the model.
\<close>

lemma has_open_wizard_iff:
  "has_open_wizard st m \<longleftrightarrow> member_id m \<in> dom (new_map st) \<union> dom (edit_map st)"
  by (auto simp: has_open_wizard_def wizards_items_def)

lemma get_wizard_for_cases:
  "get_wizard_for st m =
     (case new_map st (member_id m) of
        Some (Some w) \<Rightarrow> Inr (''new'', w)
      | _ \<Rightarrow> (case edit_map st (member_id m) of
                Some (Some w) \<Rightarrow> Inr (''edit'', w)
              | _ \<Rightarrow> Inl (KeyError (''Member '' @ member_str m @ '' does not have an active wizard''))))"
  by (simp add: get_wizard_for_def wizards_items_def split: option.split)

lemma get_wizard_for_found:
  "get_wizard_for st m = Inr (kind, w) \<Longrightarrow>
   (kind = ''new'' \<or> kind = ''edit'') \<and> wizards_at st kind (member_id m) = Some (Some w)"
  by (auto simp: get_wizard_for_cases wizards_at_def split: option.splits)

lemma send_message_maps:
  "new_map (snd (send_message the_bot m text st)) = new_map st"
  "edit_map (snd (send_message the_bot m text st)) = edit_map st"
  by (simp_all add: send_message_def split: option.split)

lemma send_question_maps:
  "new_map (snd (send_question W the_bot m st)) = new_map st"
  "edit_map (snd (send_question W the_bot m st)) = edit_map st"
  by (simp_all add: send_question_def send_message_maps split: sum.split prod.split)

lemma one_wizard_cong:
  "dom (new_map st') \<subseteq> dom (new_map st) \<Longrightarrow> dom (edit_map st') \<subseteq> dom (edit_map st) \<Longrightarrow>
   one_wizard_per_user st \<Longrightarrow> one_wizard_per_user st'"
  by (auto simp: one_wizard_per_user_def)

lemma create_new_wizard_maps:
  "new_map (snd (create_new_wizard W the_bot m ts st)) =
     (if has_open_wizard st m then new_map st
      else (new_map st)(member_id m \<mapsto> Some (wz_create W (member_id m) ts)))"
  "edit_map (snd (create_new_wizard W the_bot m ts st)) = edit_map st"
  by (auto simp: create_new_wizard_def Let_def set_entry_def not_awaited_def
        send_message_def send_question_def
      split: prod.split sum.split option.split)

lemma create_edit_wizard_maps:
  "new_map (snd (create_edit_wizard W the_bot m ts proj st)) = new_map st"
  "edit_map (snd (create_edit_wizard W the_bot m ts proj st)) =
     (if has_open_wizard st m then edit_map st
      else (edit_map st)(member_id m \<mapsto> Some (wz_all_opts W (wz_create W (member_id m) ts))))"
  by (auto simp: create_edit_wizard_def Let_def set_entry_def not_awaited_def
        send_message_def send_question_def
      split: prod.split sum.split option.split)

lemma process_answer_doms:
  "dom (new_map (snd (process_answer W msg st))) = dom (new_map st)"
  "dom (edit_map (snd (process_answer W msg st))) = dom (edit_map st)"
  by (auto simp: process_answer_def Let_def set_entry_def get_wizard_for_cases
      split: prod.split sum.split option.splits if_splits)

lemma close_wizard_doms:
  "dom (new_map (snd (close_wizard W the_bot m st))) \<subseteq> dom (new_map st)"
  "dom (edit_map (snd (close_wizard W the_bot m st))) \<subseteq> dom (edit_map st)"
  by (auto simp: close_wizard_def Let_def del_entry_def send_message_def
      split: prod.split sum.split option.splits if_splits)

lemma cancel_wizards_doms:
  "dom (new_map (snd (cancel_wizards the_bot m st))) \<subseteq> dom (new_map st)"
  "dom (edit_map (snd (cancel_wizards the_bot m st))) \<subseteq> dom (edit_map st)"
  by (auto simp: cancel_wizards_def wizards_items_def wizards_at_def del_entry_def
        send_message_def
      split: option.splits if_splits)

text \<open>
  Claim C6. If no user id is a key of both dictionaries, the same holds after
  \<^verbatim>\<open>create_new_wizard\<close>, \<^verbatim>\<open>create_edit_wizard\<close>, \<^verbatim>\<open>process_answer\<close>, \<^verbatim>\<open>close_wizard\<close>
  and \<^verbatim>\<open>cancel_wizards\<close>, whatever their outcome; and \<^verbatim>\<open>has_open_wizard\<close> holds for a
  member exactly when the member's id is a key of one of the dictionaries.
\<close>

theorem manager_invariant:
  assumes "one_wizard_per_user st"
  shows "one_wizard_per_user (snd (create_new_wizard W the_bot m ts st))
       \<and> one_wizard_per_user (snd (create_edit_wizard W the_bot m ts proj st))
       \<and> one_wizard_per_user (snd (process_answer W msg st))
       \<and> one_wizard_per_user (snd (close_wizard W the_bot m st))
       \<and> one_wizard_per_user (snd (cancel_wizards the_bot m st))
       \<and> (has_open_wizard st m \<longleftrightarrow> member_id m \<in> dom (new_map st) \<union> dom (edit_map st))"
proof (intro conjI)
  show "one_wizard_per_user (snd (create_new_wizard W the_bot m ts st))"
    using assms
    by (auto simp: one_wizard_per_user_def create_new_wizard_maps has_open_wizard_iff
        split: if_splits)
  show "one_wizard_per_user (snd (create_edit_wizard W the_bot m ts proj st))"
    using assms
    by (auto simp: one_wizard_per_user_def create_edit_wizard_maps has_open_wizard_iff
        split: if_splits)
  show "one_wizard_per_user (snd (process_answer W msg st))"
    using assms by (simp add: one_wizard_per_user_def process_answer_doms)
  show "one_wizard_per_user (snd (close_wizard W the_bot m st))"
    using close_wizard_doms assms by (rule one_wizard_cong)
  show "one_wizard_per_user (snd (cancel_wizards the_bot m st))"
    using cancel_wizards_doms assms by (rule one_wizard_cong)
  show "has_open_wizard st m \<longleftrightarrow> member_id m \<in> dom (new_map st) \<union> dom (edit_map st)"
    by (rule has_open_wizard_iff)
qed

text \<open>
  Claim C6, witness: the five operations on a manager that holds one new wizard.
\<close>

theorem manager_invariant_witness:
  "one_wizard_per_user (snd (create_new_wizard project_wizards delivering alice 0 (with_new (Some fresh))))
   \<and> one_wizard_per_user (snd (create_edit_wizard project_wizards delivering alice 0 \<lparr>title = ''Dune''\<rparr> (with_new (Some fresh))))
   \<and> one_wizard_per_user (snd (process_answer project_wizards \<lparr>author = alice, content = ''My Book''\<rparr> (with_new (Some fresh))))
   \<and> one_wizard_per_user (snd (close_wizard project_wizards delivering alice (with_new (Some fresh))))
   \<and> one_wizard_per_user (snd (cancel_wizards delivering alice (with_new (Some fresh))))
   \<and> has_open_wizard (with_new (Some fresh)) alice"
proof -
  have h: "one_wizard_per_user (with_new (Some fresh))"
    by (simp add: one_wizard_per_user_def with_new_def init_manager_def)
  have d: "member_id alice \<in> dom (new_map (with_new (Some fresh))) \<union> dom (edit_map (with_new (Some fresh)))"
    by (simp add: with_new_def alice_def)
  from manager_invariant [OF h, of project_wizards delivering alice 0 "\<lparr>title = ''Dune''\<rparr>" "\<lparr>author = alice, content = ''My Book''\<rparr>"] d
  show ?thesis by blast
qed

text \<open>
  Claim C7 says that a wizard whose opening messages cannot be sent is removed again. The
  code is evaluated here on an empty manager with a bot that refuses the start prompt:
  the exception reaches the caller, but the wizard put into the dictionary of new project_wizards
  is still there, the member counts as having an open wizard, and the next attempt to
  open one is turned down. The handler calls the coroutine function \<^verbatim>\<open>cancel_wizards\<close>
  without awaiting it.
\<close>

theorem create_new_wizard_send_failure:
  "create_new_wizard W refusing alice ts init_manager =
     (Inl (Exception ''Forbidden''),
      init_manager\<lparr>new_map := [''42'' \<mapsto> Some (wz_create W ''42'' ts)]\<rparr>)
   \<and> has_open_wizard (snd (create_new_wizard W refusing alice ts init_manager)) alice
   \<and> fst (create_new_wizard W delivering alice ts
            (snd (create_new_wizard W refusing alice ts init_manager)))
       = Inl (CommandError ''You already have an ongoing wizard!'')"
  by (simp add: create_new_wizard_def has_open_wizard_def wizards_items_def init_manager_def
      set_entry_def send_message_def refusing_def alice_def not_awaited_def Let_def)

text \<open>
  Claim C8, as the code has it. If \<^verbatim>\<open>get_wizard_for\<close> finds the wizard \<open>w\<close> of kind
  \<open>kind\<close> for the member and \<open>w\<close> is not done, \<^verbatim>\<open>close_wizard\<close> raises the \<^verbatim>\<open>KeyError\<close>
  that says so and the state is as before. If \<open>w\<close> is done, the entry is deleted from
  its dictionary before the completion message is sent: when the message goes out,
  \<^verbatim>\<open>close_wizard\<close> returns \<open>(kind, w)\<close> and the message is the one message sent; when
  sending raises, that exception leaves \<^verbatim>\<open>close_wizard\<close> and the wizard is gone all the
  same. Afterwards the member has no open wizard, provided that no user was a key of both
  dictionaries. If \<^verbatim>\<open>get_wizard_for\<close> raises, as it does for a member whose entries are
  all \<^verbatim>\<open>None\<close>, \<^verbatim>\<open>close_wizard\<close> raises the same and the state is as before.
\<close>

theorem close_wizard_contract:
  "(get_wizard_for st m = Inr (kind, w) \<longrightarrow>
      (\<not> wz_is_done W w \<longrightarrow>
         close_wizard W the_bot m st =
           (Inl (KeyError (''Wizard for user '' @ member_str m @ '' not completed yet'')), st))
      \<and> (wz_is_done W w \<longrightarrow>
           wizards_at (snd (close_wizard W the_bot m st)) kind (member_id m) = None
           \<and> (the_bot (member_id m) end_msg = None \<longrightarrow>
                close_wizard W the_bot m st =
                  (Inr (kind, w),
                   (del_entry st kind (member_id m))\<lparr>sent := sent st @ [(member_id m, end_msg)]\<rparr>))
           \<and> (\<forall>e. the_bot (member_id m) end_msg = Some e \<longrightarrow>
                close_wizard W the_bot m st = (Inl e, del_entry st kind (member_id m)))
           \<and> (one_wizard_per_user st \<longrightarrow> \<not> has_open_wizard (snd (close_wizard W the_bot m st)) m)))
   \<and> (\<forall>e. get_wizard_for st m = Inl e \<longrightarrow> close_wizard W the_bot m st = (Inl e, st))"
proof (intro conjI impI allI)
  assume g: "get_wizard_for st m = Inr (kind, w)" and "\<not> wz_is_done W w"
  then show "close_wizard W the_bot m st =
      (Inl (KeyError (''Wizard for user '' @ member_str m @ '' not completed yet'')), st)"
    by (simp add: close_wizard_def)
next
  assume g: "get_wizard_for st m = Inr (kind, w)" and d: "wz_is_done W w"
  from get_wizard_for_found [OF g]
  have k: "kind = ''new'' \<or> kind = ''edit''" by simp
  have c: "snd (close_wizard W the_bot m st) =
      (case the_bot (member_id m) end_msg of
         None \<Rightarrow> (del_entry st kind (member_id m))\<lparr>sent := sent st @ [(member_id m, end_msg)]\<rparr>
       | Some e \<Rightarrow> del_entry st kind (member_id m))"
    using g d by (simp add: close_wizard_def send_message_def del_entry_def split: option.split)
  from k show "wizards_at (snd (close_wizard W the_bot m st)) kind (member_id m) = None"
    by (auto simp: c del_entry_def wizards_at_def split: option.split)
  {
    assume "one_wizard_per_user st"
    with k get_wizard_for_found [OF g]
    show "\<not> has_open_wizard (snd (close_wizard W the_bot m st)) m"
      by (auto simp: c del_entry_def wizards_at_def has_open_wizard_iff one_wizard_per_user_def
          split: option.split if_splits)
  }
next
  assume g: "get_wizard_for st m = Inr (kind, w)" and d: "wz_is_done W w"
     and "the_bot (member_id m) end_msg = None"
  then show "close_wizard W the_bot m st =
      (Inr (kind, w), (del_entry st kind (member_id m))\<lparr>sent := sent st @ [(member_id m, end_msg)]\<rparr>)"
    by (simp add: close_wizard_def send_message_def del_entry_def)
next
  fix e
  assume g: "get_wizard_for st m = Inr (kind, w)" and d: "wz_is_done W w"
     and "the_bot (member_id m) end_msg = Some e"
  then show "close_wizard W the_bot m st = (Inl e, del_entry st kind (member_id m))"
    by (simp add: close_wizard_def send_message_def)
next
  fix e
  assume "get_wizard_for st m = Inl e"
  then show "close_wizard W the_bot m st = (Inl e, st)"
    by (simp add: close_wizard_def)
qed

text \<open>
  Claim C8, witness: closing a wizard that has just been created; closing one that is
  done, with a bot that delivers and with a bot that refuses; and closing for a member
  whose only entry is \<^verbatim>\<open>None\<close>.
\<close>

theorem close_wizard_contract_witness:
  "close_wizard project_wizards delivering alice (with_new (Some fresh)) =
     (Inl (KeyError ''Wizard for user alice#0001 not completed yet''), with_new (Some fresh))
   \<and> close_wizard project_wizards delivering alice (with_new (Some finished)) =
       (Inr (''new'', finished), init_manager\<lparr>new_map := Map.empty, sent := [(''42'', end_msg)]\<rparr>)
   \<and> \<not> has_open_wizard
         (snd (close_wizard project_wizards delivering alice (with_new (Some finished)))) alice
   \<and> close_wizard project_wizards refusing alice (with_new (Some finished)) =
       (Inl (Exception ''Forbidden''), init_manager\<lparr>new_map := Map.empty\<rparr>)
   \<and> close_wizard project_wizards delivering alice (with_new None) =
       (Inl (KeyError ''Member alice#0001 does not have an active wizard''), with_new None)"
proof -
  have h: "one_wizard_per_user (with_new v)" for v :: "wizard option"
    by (simp add: one_wizard_per_user_def with_new_def init_manager_def)
  have g: "get_wizard_for (with_new (Some v)) alice = Inr (''new'', v)" for v
    by (simp add: get_wizard_for_cases with_new_def alice_def)
  have gn: "get_wizard_for (with_new None) alice =
      Inl (KeyError ''Member alice#0001 does not have an active wizard'')"
    by (simp add: get_wizard_for_cases with_new_def alice_def init_manager_def)
  have n: "\<not> wz_is_done project_wizards fresh"
    by (simp add: project_wizards_def ProjectWizard_def fresh_def is_done_def keys_def)
  have y: "wz_is_done project_wizards finished"
    by (simp add: project_wizards_def ProjectWizard_def fresh_def finished_def is_done_def keys_def)
  have d: "delivering (member_id alice) end_msg = None" by (simp add: delivering_def)
  have r: "refusing (member_id alice) end_msg = Some (Exception ''Forbidden'')"
    by (simp add: refusing_def)
  have e: "(del_entry (with_new (Some finished)) ''new'' (member_id alice))
              \<lparr>sent := sent (with_new (Some finished)) @ [(member_id alice, end_msg)]\<rparr>
           = init_manager\<lparr>new_map := Map.empty, sent := [(''42'', end_msg)]\<rparr>"
    by (simp add: del_entry_def with_new_def init_manager_def alice_def)
  have e': "del_entry (with_new (Some finished)) ''new'' (member_id alice)
           = init_manager\<lparr>new_map := Map.empty\<rparr>"
    by (simp add: del_entry_def with_new_def init_manager_def alice_def)
  have s: "''Wizard for user '' @ member_str alice @ '' not completed yet''
      = ''Wizard for user alice#0001 not completed yet''"
    by (simp add: alice_def)
  note t1 = close_wizard_contract [where st = "with_new (Some fresh)" and m = alice
              and kind = "''new''" and w = fresh and W = project_wizards and the_bot = delivering]
  note t2 = close_wizard_contract [where st = "with_new (Some finished)" and m = alice
              and kind = "''new''" and w = finished and W = project_wizards and the_bot = delivering]
  note t3 = close_wizard_contract [where st = "with_new (Some finished)" and m = alice
              and kind = "''new''" and w = finished and W = project_wizards and the_bot = refusing]
  note t4 = close_wizard_contract [where st = "with_new None" and m = alice
              and W = project_wizards and the_bot = delivering]
  from t1 g n have a: "close_wizard project_wizards delivering alice (with_new (Some fresh)) =
     (Inl (KeyError (''Wizard for user '' @ member_str alice @ '' not completed yet'')),
      with_new (Some fresh))" by blast
  from t2 g y d have b: "close_wizard project_wizards delivering alice (with_new (Some finished)) =
       (Inr (''new'', finished),
        (del_entry (with_new (Some finished)) ''new'' (member_id alice))
              \<lparr>sent := sent (with_new (Some finished)) @ [(member_id alice, end_msg)]\<rparr>)"
    by blast
  from t2 g y h have c: "\<not> has_open_wizard
      (snd (close_wizard project_wizards delivering alice (with_new (Some finished)))) alice"
    by blast
  from t3 g y r have f: "close_wizard project_wizards refusing alice (with_new (Some finished)) =
       (Inl (Exception ''Forbidden''), del_entry (with_new (Some finished)) ''new'' (member_id alice))"
    by blast
  from t4 gn have k: "close_wizard project_wizards delivering alice (with_new None) =
       (Inl (KeyError ''Member alice#0001 does not have an active wizard''), with_new None)"
    by blast
  from a have a': "close_wizard project_wizards delivering alice (with_new (Some fresh)) =
     (Inl (KeyError ''Wizard for user alice#0001 not completed yet''), with_new (Some fresh))"
    unfolding s .
  from b have b': "close_wizard project_wizards delivering alice (with_new (Some finished)) =
       (Inr (''new'', finished), init_manager\<lparr>new_map := Map.empty, sent := [(''42'', end_msg)]\<rparr>)"
    unfolding e .
  from f have f': "close_wizard project_wizards refusing alice (with_new (Some finished)) =
       (Inl (Exception ''Forbidden''), init_manager\<lparr>new_map := Map.empty\<rparr>)"
    unfolding e' .
  from a' b' c f' k show ?thesis by blast
qed

text \<open>
  Claim C8, counterexample, in three parts. With a wizard that is done and a bot that
  refuses the completion message, \<^verbatim>\<open>close_wizard\<close> returns no pair: the exception of the
  send leaves it, and the wizard is no longer in the manager. With a member who is a key
  of both dictionaries, the member still has an open wizard after \<^verbatim>\<open>close_wizard\<close> has
  returned the one that was done. And a member whose only entry is \<^verbatim>\<open>None\<close> has an open
  wizard by \<^verbatim>\<open>has_open_wizard\<close>, yet \<^verbatim>\<open>close_wizard\<close> raises the error of a member without
  an active wizard.
\<close>

theorem close_wizard_counterexample:
  "close_wizard project_wizards refusing alice (with_new (Some finished)) =
     (Inl (Exception ''Forbidden''), init_manager)
   \<and> fst (close_wizard project_wizards delivering alice (with_both (Some finished)))
       = Inr (''new'', finished)
   \<and> has_open_wizard (snd (close_wizard project_wizards delivering alice (with_both (Some finished))))
       alice
   \<and> has_open_wizard (with_new None) alice
   \<and> close_wizard project_wizards delivering alice (with_new None) =
       (Inl (KeyError ''Member alice#0001 does not have an active wizard''), with_new None)"
  by (simp add: close_wizard_def get_wizard_for_cases has_open_wizard_iff send_message_def
      del_entry_def with_new_def with_both_def init_manager_def alice_def delivering_def
      refusing_def project_wizards_def ProjectWizard_def fresh_def finished_def is_done_def keys_def)








text \<open>
  Claim C10, as the code has it. If a dictionary has the member's id as a key with the
  value \<^verbatim>\<open>None\<close>, \<^verbatim>\<open>has_open_wizard\<close> holds for the member. If moreover no dictionary holds
  a wizard for that id, \<^verbatim>\<open>get_wizard_for\<close> raises the \<^verbatim>\<open>KeyError\<close> of a member without an
  active wizard, and so does \<^verbatim>\<open>process_answer\<close> for a message of that member, leaving the
  state as it was.
\<close>

theorem none_entry_contract:
  "(new_map st (member_id m) = Some None \<or> edit_map st (member_id m) = Some None \<longrightarrow>
      has_open_wizard st m)
   \<and> ((new_map st (member_id m) = Some None \<or> edit_map st (member_id m) = Some None)
       \<and> (\<forall>w. new_map st (member_id m) \<noteq> Some (Some w))
       \<and> (\<forall>w. edit_map st (member_id m) \<noteq> Some (Some w)) \<longrightarrow>
      get_wizard_for st m
        = Inl (KeyError (''Member '' @ member_str m @ '' does not have an active wizard''))
      \<and> process_answer W \<lparr>author = m, content = raw\<rparr> st
          = (Inl (KeyError (''Member '' @ member_str m @ '' does not have an active wizard'')), st))"
proof (intro conjI impI)
  assume "new_map st (member_id m) = Some None \<or> edit_map st (member_id m) = Some None"
  then show "has_open_wizard st m"
    by (auto simp: has_open_wizard_iff)
next
  assume a: "(new_map st (member_id m) = Some None \<or> edit_map st (member_id m) = Some None)
       \<and> (\<forall>w. new_map st (member_id m) \<noteq> Some (Some w))
       \<and> (\<forall>w. edit_map st (member_id m) \<noteq> Some (Some w))"
  then show g: "get_wizard_for st m
      = Inl (KeyError (''Member '' @ member_str m @ '' does not have an active wizard''))"
    by (auto simp: get_wizard_for_cases split: option.splits)
  then show "process_answer W \<lparr>author = m, content = raw\<rparr> st
      = (Inl (KeyError (''Member '' @ member_str m @ '' does not have an active wizard'')), st)"
    by (simp add: process_answer_def)
qed

text \<open>
  Claim C10, witness: the manager whose dictionary of new wizards maps the member's id to
  \<^verbatim>\<open>None\<close> and whose dictionary of edit wizards is empty.
\<close>

theorem none_entry_contract_witness:
  "has_open_wizard (with_new None) alice
   \<and> get_wizard_for (with_new None) alice
       = Inl (KeyError ''Member alice#0001 does not have an active wizard'')
   \<and> process_answer project_wizards \<lparr>author = alice, content = ''My Book''\<rparr> (with_new None)
       = (Inl (KeyError ''Member alice#0001 does not have an active wizard''), with_new None)"
proof -
  have n: "new_map (with_new None :: wizard wizard_manager) (member_id alice) = Some None
      \<or> edit_map (with_new None :: wizard wizard_manager) (member_id alice) = Some None"
    by (simp add: with_new_def alice_def)
  have q: "(\<forall>w. new_map (with_new None :: wizard wizard_manager) (member_id alice) \<noteq> Some (Some w))
      \<and> (\<forall>w. edit_map (with_new None :: wizard wizard_manager) (member_id alice) \<noteq> Some (Some w))"
    by (simp add: with_new_def alice_def init_manager_def)
  have s: "''Member '' @ member_str alice @ '' does not have an active wizard''
      = ''Member alice#0001 does not have an active wizard''"
    by (simp add: alice_def)
  note t = none_entry_contract [where st = "with_new None" and m = alice and W = project_wizards
             and raw = "''My Book''"]
  from t n q show ?thesis unfolding s by blast
qed

text \<open>
  Claim C10, counterexample: the member's id is a key of the dictionary of new wizards
  with the value \<^verbatim>\<open>None\<close>, and the dictionary of edit wizards holds a wizard for it. The
  loop of \<^verbatim>\<open>get_wizard_for\<close> goes on past the \<^verbatim>\<open>None\<close> and returns the edit wizard, and
  \<^verbatim>\<open>process_answer\<close> feeds the answer to it.
\<close>

theorem none_entry_counterexample:
  "new_map (with_both None) (member_id alice) = Some None
   \<and> has_open_wizard (with_both None) alice
   \<and> get_wizard_for (with_both None) alice = Inr (''edit'', fresh)
   \<and> fst (process_answer project_wizards \<lparr>author = alice, content = ''My Book''\<rparr> (with_both None))
       = Inr ()"
  by (simp add: get_wizard_for_cases has_open_wizard_iff process_answer_def set_entry_def
      with_both_def init_manager_def alice_def project_wizards_def ProjectWizard_def fresh_def
      answer_def keys_def keys_optional_def Let_def)

end
